theory Spec2Isabelle
  imports Main
begin

section \<open>Data model of backend/app.py\<close>

text \<open>
  The request handlers of \<^verbatim>\<open>backend/app.py\<close> are embedded as functions from the
  store (the two tables), the login session and the JSON body of the request to a
  response and the store after the request.

  A body is a JSON object: a dictionary from keys to JSON values. A value is \<^verbatim>\<open>null\<close>,
  a boolean, a number, a string, an array or an object; a number is an integer here
  (one with a fraction is a float in Python and has no term). The same type holds
  the attribute of a mapped object, which is whatever the handler assigned to it, and
  the value of a \<^verbatim>\<open>String\<close> or \<^verbatim>\<open>Text\<close> column, which is \<^verbatim>\<open>NULL\<close> or a text once
  SQLite has stored it.
\<close>

datatype jval =
    JNull
  | JBool bool
  | JNum int
  | JStr string
  | JArr "jval list"
  | JObj "(string \<times> jval) list"

type_synonym json_object = "string \<rightharpoonup> jval"

text \<open>
  A \<^verbatim>\<open>DateTime\<close> value is its position on the time line. SQLite keeps it as a text of
  fixed width (year first), so that \<^verbatim>\<open>ORDER BY\<close> compares positions.
\<close>

type_synonym datetime = int

text \<open>class User. The primary key and the creation time carry the prefix \<open>u_\<close>.\<close>

record user =
  u_id :: int
  username :: jval
  email :: jval
  password_hash :: jval
  twitch_token :: jval
  twitter_token :: jval
  instagram_token :: jval
  discord_token :: jval
  u_created_at :: datetime

text \<open>class ScheduledContent. The primary key and the creation time carry the prefix \<open>c_\<close>.\<close>

record scheduled_content =
  c_id :: int
  title :: jval
  content :: jval
  content_type :: jval
  platforms :: jval
  scheduled_for :: datetime
  hashtags :: jval
  mentions :: jval
  files :: jval
  status :: jval
  user_id :: int
  c_created_at :: datetime

text \<open>The database: the rows of the two tables, in the order of their insertion.\<close>

record db =
  users :: "user list"
  scheduled_contents :: "scheduled_content list"

text \<open>
  The exceptions a handler lets escape (Flask answers them with a generic 500): those
  of Python, the IntegrityError of a violated constraint, and the two errors of the
  SQLite driver for a parameter it cannot bind. Then the bodies of the responses the handlers build with \<^verbatim>\<open>jsonify\<close>. A response is the pair
  of body and status code that the handler returns; a handler that returns the body
  alone answers 200.
\<close>

datatype exn =
    KeyError string
  | TypeError
  | ValueError
  | IntegrityError
  | ProgrammingError
  | OverflowError

record content_json =
  j_id :: int
  j_title :: jval
  j_content :: jval
  j_content_type :: jval
  j_platforms :: jval
  j_scheduled_for :: datetime
  j_hashtags :: jval
  j_mentions :: jval
  j_files :: jval
  j_status :: jval
  j_created_at :: datetime

datatype body =
    Message string
  | Error string
  | Abort
  | LoginOk string int jval jval
  | Profile int jval jval "(string \<times> bool) list"
  | ContentList "content_json list"
  | Created int string

type_synonym response = "body \<times> nat"

type_synonym outcome = "(exn + response) \<times> db"

section \<open>Helpers of the framework\<close>

text \<open>\<^verbatim>\<open>data.get(key, default)\<close> and \<^verbatim>\<open>data.get(key)\<close> of a dictionary.\<close>

definition dict_get :: "json_object \<Rightarrow> string \<Rightarrow> jval \<Rightarrow> jval" where
  "dict_get data k d = (case data k of None \<Rightarrow> d | Some v \<Rightarrow> v)"

text \<open>Python's \<^verbatim>\<open>bool(x)\<close>.\<close>

fun py_bool :: "jval \<Rightarrow> bool" where
  "py_bool JNull = False"
| "py_bool (JBool b) = b"
| "py_bool (JNum n) = (n \<noteq> 0)"
| "py_bool (JStr s) = (s \<noteq> [])"
| "py_bool (JArr vs) = (vs \<noteq> [])"
| "py_bool (JObj kvs) = (kvs \<noteq> [])"

text \<open>The decimal text of an integer, as SQLite writes it.\<close>

function show_nat :: "nat \<Rightarrow> string" where
  "show_nat n =
     (if n < 10 then [''0123456789'' ! n]
      else show_nat (n div 10) @ [''0123456789'' ! (n mod 10)])"
  by pat_completeness auto
termination
  by (relation "measure id") auto

declare show_nat.simps [simp del]

definition show_int :: "int \<Rightarrow> string" where
  "show_int i = (if i < 0 then CHR ''-'' # show_nat (nat (- i)) else show_nat (nat i))"

text \<open>
  A Python value as the parameter of a statement on a \<^verbatim>\<open>String\<close> or \<^verbatim>\<open>Text\<close>
  column. SQLAlchemy passes it to the driver as it is. \<^verbatim>\<open>None\<close> is \<^verbatim>\<open>NULL\<close> and a
  string is itself. An integer that fits 64 bits, and a boolean as the integer 1 or 0,
  is bound as an integer, and the text affinity of the column makes it its decimal
  text, in a comparison as in a stored value. A larger integer raises OverflowError,
  and the driver has no binding for a list or a dictionary: ProgrammingError.
\<close>

fun bind_text :: "jval \<Rightarrow> exn + jval" where
  "bind_text JNull = Inr JNull"
| "bind_text (JStr s) = Inr (JStr s)"
| "bind_text (JBool b) = Inr (JStr (if b then ''1'' else ''0''))"
| "bind_text (JNum n) =
     (if - (2 ^ 63) \<le> n \<and> n < 2 ^ 63 then Inr (JStr (show_int n)) else Inl OverflowError)"
| "bind_text (JArr vs) = Inl ProgrammingError"
| "bind_text (JObj kvs) = Inl ProgrammingError"

text \<open>
  An \<^verbatim>\<open>UPDATE\<close> has a parameter only for an attribute whose value is not the loaded
  one; the column of any other attribute stays as it is.
\<close>

definition bind_changed :: "jval \<Rightarrow> jval \<Rightarrow> exn + jval" where
  "bind_changed old new = (if new = old then Inr old else bind_text new)"

text \<open>Running on after a step that may have raised.\<close>

fun and_then :: "exn + 'a \<Rightarrow> ('a \<Rightarrow> exn + 'b) \<Rightarrow> exn + 'b" where
  "and_then (Inl e) f = Inl e"
| "and_then (Inr a) f = f a"

text \<open>
  \<^verbatim>\<open>load_user\<close>: the row of the user table with the primary key the session holds.
\<close>

definition load_user :: "db \<Rightarrow> int \<Rightarrow> user option" where
  "load_user s i = find (\<lambda>u. u_id u = i) (users s)"

text \<open>
  The decorator \<^verbatim>\<open>login_required\<close>: without a session, or with a session whose user
  \<^verbatim>\<open>load_user\<close> does not find, the request is answered 401 and the handler does not
  run; otherwise the handler runs with \<^verbatim>\<open>current_user\<close>.
\<close>

definition login_required :: "db \<Rightarrow> int option \<Rightarrow> (user \<Rightarrow> outcome) \<Rightarrow> outcome" where
  "login_required s sess handler =
     (case sess of
        None \<Rightarrow> (Inr (Abort, 401), s)
      | Some i \<Rightarrow>
          (case load_user s i of
             None \<Rightarrow> (Inr (Abort, 401), s)
           | Some current_user \<Rightarrow> handler current_user))"

text \<open>
  \<^verbatim>\<open>db.session.commit()\<close> after token attributes of \<^verbatim>\<open>current_user\<close> were assigned:
  \<open>u\<close> is the user as loaded, \<open>u'\<close> the object after the assignments. The changed
  tokens are bound in the order of the columns, and the row of that primary key is
  updated. The token columns are nullable and unconstrained, so only a binding can
  fail.
\<close>

definition commit_user :: "db \<Rightarrow> user \<Rightarrow> user \<Rightarrow> exn + db" where
  "commit_user s u u' =
     and_then (bind_changed (twitch_token u) (twitch_token u')) (\<lambda>twitch.
     and_then (bind_changed (twitter_token u) (twitter_token u')) (\<lambda>twitter.
     and_then (bind_changed (instagram_token u) (instagram_token u')) (\<lambda>instagram.
     and_then (bind_changed (discord_token u) (discord_token u')) (\<lambda>discord.
       Inr (s\<lparr>users :=
              map (\<lambda>x. if u_id x = u_id u'
                        then u'\<lparr>twitch_token := twitch, twitter_token := twitter,
                                instagram_token := instagram, discord_token := discord\<rparr>
                        else x) (users s)\<rparr>)))))"

section \<open>Profile and platform tokens\<close>

definition get_profile :: "db \<Rightarrow> int option \<Rightarrow> outcome" where
  "get_profile s sess = login_required s sess (\<lambda>current_user.
     (Inr (Profile (u_id current_user) (username current_user) (email current_user)
             [(''twitch'', py_bool (twitch_token current_user)),
              (''twitter'', py_bool (twitter_token current_user)),
              (''instagram'', py_bool (instagram_token current_user)),
              (''discord'', py_bool (discord_token current_user))], 200), s))"

definition connect_platform :: "db \<Rightarrow> int option \<Rightarrow> string \<Rightarrow> json_object \<Rightarrow> outcome" where
  "connect_platform s sess platform data = login_required s sess (\<lambda>current_user.
     let token = dict_get data ''token'' JNull in
     (case (if platform = ''twitch'' then Some (current_user\<lparr>twitch_token := token\<rparr>)
            else if platform = ''twitter'' then Some (current_user\<lparr>twitter_token := token\<rparr>)
            else if platform = ''instagram'' then Some (current_user\<lparr>instagram_token := token\<rparr>)
            else if platform = ''discord'' then Some (current_user\<lparr>discord_token := token\<rparr>)
            else None) of
        None \<Rightarrow> (Inr (Error ''Invalid platform'', 400), s)
      | Some u' \<Rightarrow>
          (case commit_user s current_user u' of
             Inl e \<Rightarrow> (Inl e, s)
           | Inr s' \<Rightarrow> (Inr (Message (platform @ '' connected successfully''), 200), s'))))"

definition disconnect_platform :: "db \<Rightarrow> int option \<Rightarrow> string \<Rightarrow> outcome" where
  "disconnect_platform s sess platform = login_required s sess (\<lambda>current_user.
     (case (if platform = ''twitch'' then Some (current_user\<lparr>twitch_token := JNull\<rparr>)
            else if platform = ''twitter'' then Some (current_user\<lparr>twitter_token := JNull\<rparr>)
            else if platform = ''instagram'' then Some (current_user\<lparr>instagram_token := JNull\<rparr>)
            else if platform = ''discord'' then Some (current_user\<lparr>discord_token := JNull\<rparr>)
            else None) of
        None \<Rightarrow> (Inr (Error ''Invalid platform'', 400), s)
      | Some u' \<Rightarrow>
          (case commit_user s current_user u' of
             Inl e \<Rightarrow> (Inl e, s)
           | Inr s' \<Rightarrow> (Inr (Message (platform @ '' disconnected successfully''), 200), s'))))"

text \<open>The flag that a profile response reports for a platform.\<close>

fun connected_flag :: "exn + response \<Rightarrow> string \<Rightarrow> bool option" where
  "connected_flag (Inr (Profile i n e flags, code)) p = map_of flags p"
| "connected_flag r p = None"

section \<open>Registration and login\<close>

text \<open>
  The primary key of a new row. Neither table is declared with \<^verbatim>\<open>AUTOINCREMENT\<close>, so
  SQLite gives the new row one more than the largest key of the table, and 1 in an
  empty table.
\<close>

definition next_id :: "int list \<Rightarrow> int" where
  "next_id ids = foldr max ids 0 + 1"

text \<open>
  \<^verbatim>\<open>db.session.add(user); db.session.commit()\<close>: the three attributes are bound in
  the order of the columns; then the \<^verbatim>\<open>INSERT\<close> fails with an IntegrityError when a
  column declared \<^verbatim>\<open>nullable=False\<close> is null or a column declared \<^verbatim>\<open>unique=True\<close>
  repeats a value of the table; otherwise the row is stored under a new primary key.
\<close>

definition insert_user :: "db \<Rightarrow> user \<Rightarrow> exn + db" where
  "insert_user s u =
     and_then (bind_text (username u)) (\<lambda>name.
     and_then (bind_text (email u)) (\<lambda>mail.
     and_then (bind_text (password_hash u)) (\<lambda>password.
       if name = JNull \<or> mail = JNull \<or> password = JNull then Inl IntegrityError
       else if name \<in> set (map username (users s)) \<or> mail \<in> set (map email (users s))
         then Inl IntegrityError
       else Inr (s\<lparr>users := users s @
                   [u\<lparr>u_id := next_id (map u_id (users s)), username := name,
                      email := mail, password_hash := password\<rparr>]\<rparr>))))"

text \<open>
  \<^verbatim>\<open>register\<close>. The argument \<open>now\<close> is the clock the column default
  \<^verbatim>\<open>datetime.utcnow\<close> reads. A subscript \<^verbatim>\<open>data['k']\<close> of a missing key raises KeyError.
  Each \<^verbatim>\<open>filter_by\<close> binds its value as a parameter of the query.
\<close>

definition register :: "datetime \<Rightarrow> db \<Rightarrow> json_object \<Rightarrow> outcome" where
  "register now s data =
     (case data ''username'' of
        None \<Rightarrow> (Inl (KeyError ''username''), s)
      | Some name \<Rightarrow>
     (case bind_text name of
        Inl e \<Rightarrow> (Inl e, s)
      | Inr name_p \<Rightarrow>
          if find (\<lambda>u. username u = name_p) (users s) \<noteq> None
          then (Inr (Error ''Username already exists'', 400), s)
          else
     (case data ''email'' of
        None \<Rightarrow> (Inl (KeyError ''email''), s)
      | Some mail \<Rightarrow>
     (case bind_text mail of
        Inl e \<Rightarrow> (Inl e, s)
      | Inr mail_p \<Rightarrow>
          if find (\<lambda>u. email u = mail_p) (users s) \<noteq> None
          then (Inr (Error ''Email already exists'', 400), s)
          else
     (case data ''password'' of
        None \<Rightarrow> (Inl (KeyError ''password''), s)
      | Some password \<Rightarrow>
     (case insert_user s
             \<lparr>u_id = 0, username = name, email = mail,
              password_hash = password,
              twitch_token = JNull, twitter_token = JNull,
              instagram_token = JNull, discord_token = JNull,
              u_created_at = now\<rparr> of
        Inl e \<Rightarrow> (Inl e, s)
      | Inr s' \<Rightarrow> (Inr (Message ''User registered successfully'', 201), s')))))))"


section \<open>Scheduled content\<close>

text \<open>
  \<^verbatim>\<open>order_by(ScheduledContent.scheduled_for.desc())\<close>: the rows by descending
  \<^verbatim>\<open>scheduled_for\<close>; rows of equal time stay in the order of the table. A row is put
  in front of the first row that is not later than it.
\<close>

fun insert_desc :: "scheduled_content \<Rightarrow> scheduled_content list \<Rightarrow> scheduled_content list" where
  "insert_desc c [] = [c]"
| "insert_desc c (d # ds) =
     (if scheduled_for d \<le> scheduled_for c then c # d # ds else d # insert_desc c ds)"

definition order_by_desc :: "scheduled_content list \<Rightarrow> scheduled_content list" where
  "order_by_desc cs = foldr insert_desc cs []"

text \<open>The dictionary \<^verbatim>\<open>get_content\<close> builds for one row; it has no key for the owner.\<close>

definition content_dict :: "scheduled_content \<Rightarrow> content_json" where
  "content_dict c =
     \<lparr>j_id = c_id c, j_title = title c, j_content = content c,
      j_content_type = content_type c, j_platforms = platforms c,
      j_scheduled_for = scheduled_for c, j_hashtags = hashtags c,
      j_mentions = mentions c, j_files = files c, j_status = status c,
      j_created_at = c_created_at c\<rparr>"

text \<open>The query of \<^verbatim>\<open>get_content\<close>, and the handler around it.\<close>

definition contents_of :: "db \<Rightarrow> user \<Rightarrow> scheduled_content list" where
  "contents_of s current_user =
     order_by_desc (filter (\<lambda>c. user_id c = u_id current_user) (scheduled_contents s))"

definition get_content :: "db \<Rightarrow> int option \<Rightarrow> outcome" where
  "get_content s sess = login_required s sess (\<lambda>current_user.
     let contents = contents_of s current_user in
     (Inr (ContentList (map content_dict contents), 200), s))"

text \<open>
  \<^verbatim>\<open>datetime.fromisoformat(v)\<close>: TypeError when the value is not a string, ValueError
  when the string is not a timestamp. The parser of the standard library itself is the
  argument \<open>fromisoformat\<close>, with \<open>None\<close> for the strings it rejects.
\<close>

definition parse_datetime :: "(string \<Rightarrow> datetime option) \<Rightarrow> jval \<Rightarrow> exn + datetime" where
  "parse_datetime fromisoformat v =
     (case v of
        JStr t \<Rightarrow> (case fromisoformat t of None \<Rightarrow> Inl ValueError | Some d \<Rightarrow> Inr d)
      | _ \<Rightarrow> Inl TypeError)"

text \<open>
  A column default at \<^verbatim>\<open>INSERT\<close>: the mapper leaves an attribute that is \<^verbatim>\<open>None\<close> out
  of the statement, and the column then takes its default.
\<close>

definition column_default :: "string \<Rightarrow> jval \<Rightarrow> jval" where
  "column_default d v = (if v = JNull then JStr d else v)"

text \<open>
  \<^verbatim>\<open>db.session.add(content); db.session.commit()\<close>: the text attributes are bound in
  the order of the columns; then the \<^verbatim>\<open>INSERT\<close> fails with an IntegrityError when
  \<^verbatim>\<open>title\<close> or \<^verbatim>\<open>content\<close> is null; otherwise the row is stored with its defaults
  under a new primary key, which is returned with the store.
\<close>

definition insert_content :: "db \<Rightarrow> scheduled_content \<Rightarrow> exn + (int \<times> db)" where
  "insert_content s c =
     and_then (bind_text (title c)) (\<lambda>title_p.
     and_then (bind_text (content c)) (\<lambda>content_p.
     and_then (bind_text (content_type c)) (\<lambda>content_type_p.
     and_then (bind_text (platforms c)) (\<lambda>platforms_p.
     and_then (bind_text (hashtags c)) (\<lambda>hashtags_p.
     and_then (bind_text (mentions c)) (\<lambda>mentions_p.
     and_then (bind_text (files c)) (\<lambda>files_p.
       if title_p = JNull \<or> content_p = JNull then Inl IntegrityError
       else
         let new_id = next_id (map c_id (scheduled_contents s));
             row = c\<lparr>c_id := new_id,
                     title := title_p,
                     content := content_p,
                     content_type := column_default ''text'' content_type_p,
                     platforms := column_default ''[]'' platforms_p,
                     hashtags := hashtags_p,
                     mentions := mentions_p,
                     files := column_default ''[]'' files_p,
                     status := column_default ''pending'' (status c)\<rparr>
         in Inr (new_id, s\<lparr>scheduled_contents := scheduled_contents s @ [row]\<rparr>))))))))"

text \<open>
  \<^verbatim>\<open>create_content\<close>. The keyword arguments of the constructor are evaluated in the
  order they are written, so the first missing key or the first value that does not
  parse decides the exception. \<^verbatim>\<open>status\<close> is not passed and is \<^verbatim>\<open>None\<close> on the new
  object.
\<close>

definition create_content ::
  "(string \<Rightarrow> datetime option) \<Rightarrow> datetime \<Rightarrow> db \<Rightarrow> int option \<Rightarrow> json_object \<Rightarrow> outcome" where
  "create_content fromisoformat now s sess data = login_required s sess (\<lambda>current_user.
     (case data ''title'' of
        None \<Rightarrow> (Inl (KeyError ''title''), s)
      | Some title_v \<Rightarrow>
     (case data ''content'' of
        None \<Rightarrow> (Inl (KeyError ''content''), s)
      | Some content_v \<Rightarrow>
     (case data ''scheduled_for'' of
        None \<Rightarrow> (Inl (KeyError ''scheduled_for''), s)
      | Some when_v \<Rightarrow>
     (case parse_datetime fromisoformat when_v of
        Inl e \<Rightarrow> (Inl e, s)
      | Inr when \<Rightarrow>
     (case insert_content s
             \<lparr>c_id = 0, title = title_v, content = content_v,
              content_type = dict_get data ''content_type'' (JStr ''text''),
              platforms = dict_get data ''platforms'' (JStr ''[]''),
              scheduled_for = when,
              hashtags = dict_get data ''hashtags'' JNull,
              mentions = dict_get data ''mentions'' JNull,
              files = dict_get data ''files'' (JStr ''[]''),
              status = JNull,
              user_id = u_id current_user,
              c_created_at = now\<rparr> of
        Inl e \<Rightarrow> (Inl e, s)
      | Inr (new_id, s') \<Rightarrow>
          (Inr (Created new_id ''Content scheduled successfully'', 201), s')))))))"

text \<open>
  \<^verbatim>\<open>db.session.commit()\<close> after attributes of a content row were assigned: \<open>c\<close> is
  the row as loaded, \<open>c'\<close> the object after the assignments. The changed text
  attributes are bound in the order of the columns; then the \<^verbatim>\<open>UPDATE\<close> of the row
  with that primary key fails with an IntegrityError when \<^verbatim>\<open>title\<close> or \<^verbatim>\<open>content\<close>
  was set to null.
\<close>

definition commit_content :: "db \<Rightarrow> scheduled_content \<Rightarrow> scheduled_content \<Rightarrow> exn + db" where
  "commit_content s c c' =
     and_then (bind_changed (title c) (title c')) (\<lambda>title_p.
     and_then (bind_changed (content c) (content c')) (\<lambda>content_p.
     and_then (bind_changed (content_type c) (content_type c')) (\<lambda>content_type_p.
     and_then (bind_changed (platforms c) (platforms c')) (\<lambda>platforms_p.
     and_then (bind_changed (hashtags c) (hashtags c')) (\<lambda>hashtags_p.
     and_then (bind_changed (mentions c) (mentions c')) (\<lambda>mentions_p.
     and_then (bind_changed (files c) (files c')) (\<lambda>files_p.
       if title_p = JNull \<or> content_p = JNull then Inl IntegrityError
       else Inr (s\<lparr>scheduled_contents :=
                     map (\<lambda>x. if c_id x = c_id c'
                               then c'\<lparr>title := title_p, content := content_p,
                                       content_type := content_type_p,
                                       platforms := platforms_p,
                                       hashtags := hashtags_p, mentions := mentions_p,
                                       files := files_p\<rparr>
                               else x) (scheduled_contents s)\<rparr>))))))))"

text \<open>
  \<^verbatim>\<open>update_content\<close>. The assignments run in the order of the source; the only one
  that can raise is the one of \<^verbatim>\<open>scheduled_for\<close>. An exception before or in the commit
  leaves the store as it was.
\<close>

definition update_content ::
  "(string \<Rightarrow> datetime option) \<Rightarrow> db \<Rightarrow> int option \<Rightarrow> int \<Rightarrow> json_object \<Rightarrow> outcome" where
  "update_content fromisoformat s sess content_id data = login_required s sess (\<lambda>current_user.
     (case find (\<lambda>c. c_id c = content_id \<and> user_id c = u_id current_user) (scheduled_contents s) of
        None \<Rightarrow> (Inr (Error ''Content not found'', 404), s)
      | Some c \<Rightarrow>
          let c1 = c\<lparr>title := dict_get data ''title'' (title c)\<rparr>;
              c2 = c1\<lparr>content := dict_get data ''content'' (content c1)\<rparr>;
              c3 = c2\<lparr>content_type := dict_get data ''content_type'' (content_type c2)\<rparr>;
              c4 = c3\<lparr>platforms := dict_get data ''platforms'' (platforms c3)\<rparr>
          in
          (case (case data ''scheduled_for'' of
                   None \<Rightarrow> Inr (scheduled_for c4)
                 | Some when_v \<Rightarrow> parse_datetime fromisoformat when_v) of
             Inl e \<Rightarrow> (Inl e, s)
           | Inr when \<Rightarrow>
               let c5 = c4\<lparr>scheduled_for := when\<rparr>;
                   c6 = c5\<lparr>hashtags := dict_get data ''hashtags'' (hashtags c5)\<rparr>;
                   c7 = c6\<lparr>mentions := dict_get data ''mentions'' (mentions c6)\<rparr>;
                   c8 = c7\<lparr>files := dict_get data ''files'' (files c7)\<rparr>
               in
               (case commit_content s c c8 of
                  Inl e \<Rightarrow> (Inl e, s)
                | Inr s' \<Rightarrow> (Inr (Message ''Content updated successfully'', 200), s')))))"

text \<open>The list of dictionaries of a content-list response.\<close>

fun listed :: "exn + response \<Rightarrow> content_json list option" where
  "listed (Inr (ContentList js, code)) = Some js"
| "listed r = None"

section \<open>A sample store\<close>

text \<open>
  Two users and three content rows, for the concrete instances of the theorems below,
  and a parser that knows three timestamps.
\<close>

definition alice :: user where
  "alice = \<lparr>u_id = 1, username = JStr ''alice'', email = JStr ''alice@example.org'',
            password_hash = JStr ''wonderland'',
            twitch_token = JNull, twitter_token = JStr ''tw-1'',
            instagram_token = JNull, discord_token = JNull, u_created_at = 10\<rparr>"

definition bob :: user where
  "bob = \<lparr>u_id = 2, username = JStr ''bob'', email = JStr ''bob@example.org'',
          password_hash = JStr ''builder'',
          twitch_token = JNull, twitter_token = JNull,
          instagram_token = JNull, discord_token = JNull, u_created_at = 20\<rparr>"

definition row1 :: scheduled_content where
  "row1 = \<lparr>c_id = 1, title = JStr ''intro'', content = JStr ''hello'',
           content_type = JStr ''text'', platforms = JStr ''[]'', scheduled_for = 100,
           hashtags = JNull, mentions = JNull, files = JStr ''[]'',
           status = JStr ''pending'', user_id = 1, c_created_at = 30\<rparr>"

definition row2 :: scheduled_content where
  "row2 = \<lparr>c_id = 2, title = JStr ''promo'', content = JStr ''buy'',
           content_type = JStr ''text'', platforms = JStr ''[]'', scheduled_for = 300,
           hashtags = JStr ''#ad'', mentions = JNull, files = JStr ''[]'',
           status = JStr ''pending'', user_id = 2, c_created_at = 40\<rparr>"

definition row3 :: scheduled_content where
  "row3 = \<lparr>c_id = 3, title = JStr ''outro'', content = JStr ''bye'',
           content_type = JStr ''text'', platforms = JStr ''[]'', scheduled_for = 200,
           hashtags = JNull, mentions = JNull, files = JStr ''[]'',
           status = JStr ''pending'', user_id = 1, c_created_at = 50\<rparr>"

definition sample_db :: db where
  "sample_db = \<lparr>users = [alice, bob], scheduled_contents = [row1, row2, row3]\<rparr>"

definition sample_fromisoformat :: "string \<Rightarrow> datetime option" where
  "sample_fromisoformat t =
     (if t = ''2025-01-01T00:00:00'' then Some 400
      else if t = ''2025-06-01T12:00:00'' then Some 500
      else if t = ''2024-01-01T00:00:00'' then Some 50
      else None)"

section \<open>Lemmas on the store\<close>

lemma find_u_id: "find (\<lambda>u. u_id u = i) us = Some u \<Longrightarrow> u_id u = i"
  by (induction us) (auto split: if_splits)

lemma load_user_u_id:
  assumes "load_user s i = Some u"
  shows "u_id u = i"
proof -
  from assms have "find (\<lambda>u. u_id u = i) (users s) = Some u"
    by (simp add: load_user_def)
  then show ?thesis by (rule find_u_id)
qed

lemma find_replaced:
  "find (\<lambda>x. u_id x = i) us = Some u \<Longrightarrow> u_id r = i \<Longrightarrow>
   find (\<lambda>x. u_id x = i) (map (\<lambda>x. if u_id x = i then r else x) us) = Some r"
  by (induction us) (auto split: if_splits)

lemma load_user_replaced:
  assumes "load_user s i = Some u" and "u_id r = i"
  shows "load_user (s\<lparr>users := map (\<lambda>x. if u_id x = i then r else x) (users s)\<rparr>) i = Some r"
proof -
  from assms(1) have "find (\<lambda>x. u_id x = i) (users s) = Some u"
    by (simp add: load_user_def)
  then have "find (\<lambda>x. u_id x = i) (map (\<lambda>x. if u_id x = i then r else x) (users s)) = Some r"
    using assms(2) by (rule find_replaced)
  then show ?thesis
    by (simp add: load_user_def)
qed

lemma and_then_Inr: "and_then x f = Inr r \<Longrightarrow> \<exists>a. x = Inr a \<and> f a = Inr r"
  by (cases x) auto

lemma bind_changed_same: "bind_changed v v = Inr v"
  by (simp add: bind_changed_def)

lemma bind_changed_null: "bind_changed old JNull = Inr JNull"
  by (simp add: bind_changed_def)

lemma bind_changed_text: "bind_changed old (JStr t) = Inr (JStr t)"
  by (simp add: bind_changed_def)

text \<open>
  The commit of one token that is \<^verbatim>\<open>None\<close> or a string stores it as it is, in the row
  of the user, and touches no other field.
\<close>

lemma commit_user_stores:
  assumes "load_user s i = Some u"
    and "u' = u\<lparr>twitch_token := a, twitter_token := b, instagram_token := c, discord_token := d\<rparr>"
    and "bind_changed (twitch_token u) a = Inr a"
    and "bind_changed (twitter_token u) b = Inr b"
    and "bind_changed (instagram_token u) c = Inr c"
    and "bind_changed (discord_token u) d = Inr d"
  shows "\<exists>s'. commit_user s u u' = Inr s' \<and> load_user s' i = Some u'"
proof -
  from assms(1) have i: "u_id u = i"
    by (rule load_user_u_id)
  with assms(2) have r: "u_id u' = i"
    by simp
  let ?s' = "s\<lparr>users := map (\<lambda>x. if u_id x = i then u' else x) (users s)\<rparr>"
  from assms(2-6) r have "commit_user s u u' = Inr ?s'"
    by (simp add: commit_user_def)
  moreover from assms(1) r have "load_user ?s' i = Some u'"
    by (rule load_user_replaced)
  ultimately show ?thesis
    by blast
qed

lemma set_insert_desc: "set (insert_desc c ds) = insert c (set ds)"
  by (induction ds) auto

lemma set_order_by_desc: "set (order_by_desc cs) = set cs"
  by (induction cs) (auto simp: order_by_desc_def set_insert_desc)

lemma sorted_insert_desc:
  "sorted_wrt (\<lambda>x y. scheduled_for y \<le> scheduled_for x) ds \<Longrightarrow>
   sorted_wrt (\<lambda>x y. scheduled_for y \<le> scheduled_for x) (insert_desc c ds)"
  by (induction ds) (auto simp: set_insert_desc)

lemma order_by_desc_tie:
  "scheduled_for a = scheduled_for b \<Longrightarrow> order_by_desc [a, b] = [a, b]"
  by (simp add: order_by_desc_def)

lemma sorted_order_by_desc:
  "sorted_wrt (\<lambda>x y. scheduled_for y \<le> scheduled_for x) (order_by_desc cs)"
  by (induction cs) (auto simp: order_by_desc_def sorted_insert_desc)

lemma set_contents_of:
  "set (contents_of s u) = {c \<in> set (scheduled_contents s). user_id c = u_id u}"
  by (auto simp: contents_of_def set_order_by_desc)

lemma sorted_contents_of:
  "sorted_wrt (\<lambda>x y. scheduled_for y \<le> scheduled_for x) (contents_of s u)"
  by (simp add: contents_of_def sorted_order_by_desc)

lemma load_user_sample_alice: "load_user sample_db 1 = Some alice"
  by (simp add: load_user_def sample_db_def alice_def)

lemma load_user_sample_bob: "load_user sample_db 2 = Some bob"
  by (simp add: load_user_def sample_db_def alice_def bob_def)

lemma contents_of_sample_alice: "contents_of sample_db alice = [row3, row1]"
  by (simp add: contents_of_def order_by_desc_def sample_db_def alice_def
      row1_def row2_def row3_def)

section \<open>Listing content\<close>

text \<open>
  Claim C1. For distinct users A and B, the list that \<^verbatim>\<open>get_content\<close> answers in A's
  session is built from exactly the stored rows whose owner is A, so from no row owned
  by B, and it is in descending order of \<^verbatim>\<open>scheduled_for\<close>.
\<close>

theorem get_content_own_rows_descending:
  assumes "load_user s a = Some ua" and "load_user s b = Some ub" and "a \<noteq> b"
  shows "\<exists>rows. get_content s (Some a) = (Inr (ContentList (map content_dict rows), 200), s)
           \<and> set rows = {c \<in> set (scheduled_contents s). user_id c = a}
           \<and> (\<forall>c \<in> set rows. user_id c \<noteq> b)
           \<and> sorted_wrt (\<lambda>x y. scheduled_for y \<le> scheduled_for x) rows
           \<and> sorted_wrt (\<lambda>x y. j_scheduled_for y \<le> j_scheduled_for x) (map content_dict rows)"
proof -
  from assms(1) have a: "u_id ua = a"
    by (rule load_user_u_id)
  let ?rows = "contents_of s ua"
  have 1: "get_content s (Some a) = (Inr (ContentList (map content_dict ?rows), 200), s)"
    using assms(1) by (simp add: get_content_def login_required_def)
  have 2: "set ?rows = {c \<in> set (scheduled_contents s). user_id c = a}"
    using a by (simp add: set_contents_of)
  have 3: "\<forall>c \<in> set ?rows. user_id c \<noteq> b"
    using 2 assms(3) by auto
  have 4: "sorted_wrt (\<lambda>x y. scheduled_for y \<le> scheduled_for x) ?rows"
    by (rule sorted_contents_of)
  have 5: "sorted_wrt (\<lambda>x y. j_scheduled_for y \<le> j_scheduled_for x) (map content_dict ?rows)"
    using 4 by (simp add: sorted_wrt_map content_dict_def)
  show ?thesis
    by (rule exI[of _ ?rows]) (intro conjI 1 2 3 4 5)
qed

theorem get_content_own_rows_descending_witness:
  "load_user sample_db 1 = Some alice \<and> load_user sample_db 2 = Some bob
   \<and> (\<exists>rows. get_content sample_db (Some 1)
                 = (Inr (ContentList (map content_dict rows), 200), sample_db)
           \<and> set rows = {c \<in> set (scheduled_contents sample_db). user_id c = 1}
           \<and> (\<forall>c \<in> set rows. user_id c \<noteq> 2)
           \<and> sorted_wrt (\<lambda>x y. scheduled_for y \<le> scheduled_for x) rows
           \<and> sorted_wrt (\<lambda>x y. j_scheduled_for y \<le> j_scheduled_for x) (map content_dict rows))
   \<and> get_content sample_db (Some 1)
       = (Inr (ContentList [content_dict row3, content_dict row1], 200), sample_db)"
proof -
  have ne: "(1::int) \<noteq> 2" by simp
  note t = get_content_own_rows_descending
    [OF load_user_sample_alice load_user_sample_bob ne]
  have c: "get_content sample_db (Some 1)
       = (Inr (ContentList [content_dict row3, content_dict row1], 200), sample_db)"
    by (simp add: get_content_def login_required_def load_user_sample_alice
        contents_of_sample_alice)
  show ?thesis
    by (intro conjI load_user_sample_alice load_user_sample_bob t c)
qed

section \<open>Platform tokens\<close>

lemma stores_twitch:
  assumes "load_user s i = Some u" and "bind_changed (twitch_token u) a = Inr a"
  shows "\<exists>s'. commit_user s u (u\<lparr>twitch_token := a\<rparr>) = Inr s'
           \<and> load_user s' i = Some (u\<lparr>twitch_token := a\<rparr>)"
  using commit_user_stores
      [where u' = "u\<lparr>twitch_token := a\<rparr>" and a = a and b = "twitter_token u" and c = "instagram_token u" and d = "discord_token u",
        OF assms(1)] assms(2)
  by (simp add: bind_changed_same)

lemma stores_twitter:
  assumes "load_user s i = Some u" and "bind_changed (twitter_token u) a = Inr a"
  shows "\<exists>s'. commit_user s u (u\<lparr>twitter_token := a\<rparr>) = Inr s'
           \<and> load_user s' i = Some (u\<lparr>twitter_token := a\<rparr>)"
  using commit_user_stores
      [where u' = "u\<lparr>twitter_token := a\<rparr>" and a = "twitch_token u" and b = a and c = "instagram_token u" and d = "discord_token u",
        OF assms(1)] assms(2)
  by (simp add: bind_changed_same)

lemma stores_instagram:
  assumes "load_user s i = Some u" and "bind_changed (instagram_token u) a = Inr a"
  shows "\<exists>s'. commit_user s u (u\<lparr>instagram_token := a\<rparr>) = Inr s'
           \<and> load_user s' i = Some (u\<lparr>instagram_token := a\<rparr>)"
  using commit_user_stores
      [where u' = "u\<lparr>instagram_token := a\<rparr>" and a = "twitch_token u" and b = "twitter_token u" and c = a and d = "discord_token u",
        OF assms(1)] assms(2)
  by (simp add: bind_changed_same)

lemma stores_discord:
  assumes "load_user s i = Some u" and "bind_changed (discord_token u) a = Inr a"
  shows "\<exists>s'. commit_user s u (u\<lparr>discord_token := a\<rparr>) = Inr s'
           \<and> load_user s' i = Some (u\<lparr>discord_token := a\<rparr>)"
  using commit_user_stores
      [where u' = "u\<lparr>discord_token := a\<rparr>" and a = "twitch_token u" and b = "twitter_token u" and c = "instagram_token u" and d = a,
        OF assms(1)] assms(2)
  by (simp add: bind_changed_same)

text \<open>
  With a valid platform name and a token that is \<^verbatim>\<open>None\<close> or a string, the commit of
  \<^verbatim>\<open>connect_platform\<close> succeeds and the user's row is the old row with that token.
\<close>

lemma connect_platform_text:
  assumes "load_user s i = Some u"
    and "p \<in> {''twitch'', ''twitter'', ''instagram'', ''discord''}"
    and "dict_get data ''token'' JNull = tok"
    and "tok = JNull \<or> (\<exists>t. tok = JStr t)"
  shows "\<exists>s'. commit_user s u
                 (if p = ''twitch'' then u\<lparr>twitch_token := tok\<rparr>
                  else if p = ''twitter'' then u\<lparr>twitter_token := tok\<rparr>
                  else if p = ''instagram'' then u\<lparr>instagram_token := tok\<rparr>
                  else u\<lparr>discord_token := tok\<rparr>) = Inr s'
           \<and> connect_platform s (Some i) p data
               = (Inr (Message (p @ '' connected successfully''), 200), s')
           \<and> load_user s' i
               = Some (if p = ''twitch'' then u\<lparr>twitch_token := tok\<rparr>
                       else if p = ''twitter'' then u\<lparr>twitter_token := tok\<rparr>
                       else if p = ''instagram'' then u\<lparr>instagram_token := tok\<rparr>
                       else u\<lparr>discord_token := tok\<rparr>)"
proof -
  from assms(4) have b: "bind_changed old tok = Inr tok" for old
    by (auto simp: bind_changed_null bind_changed_text)
  from assms(2) consider "p = ''twitch''" | "p = ''twitter''" | "p = ''instagram''"
    | "p = ''discord''"
    by auto
  then show ?thesis
  proof cases
    case 1
    from stores_twitch [OF assms(1) b] obtain s'
      where "commit_user s u (u\<lparr>twitch_token := tok\<rparr>) = Inr s'"
        and "load_user s' i = Some (u\<lparr>twitch_token := tok\<rparr>)"
      by blast
    with 1 assms(1,3) show ?thesis
      by (simp add: connect_platform_def login_required_def)
  next
    case 2
    from stores_twitter [OF assms(1) b] obtain s'
      where "commit_user s u (u\<lparr>twitter_token := tok\<rparr>) = Inr s'"
        and "load_user s' i = Some (u\<lparr>twitter_token := tok\<rparr>)"
      by blast
    with 2 assms(1,3) show ?thesis
      by (simp add: connect_platform_def login_required_def)
  next
    case 3
    from stores_instagram [OF assms(1) b] obtain s'
      where "commit_user s u (u\<lparr>instagram_token := tok\<rparr>) = Inr s'"
        and "load_user s' i = Some (u\<lparr>instagram_token := tok\<rparr>)"
      by blast
    with 3 assms(1,3) show ?thesis
      by (simp add: connect_platform_def login_required_def)
  next
    case 4
    from stores_discord [OF assms(1) b] obtain s'
      where "commit_user s u (u\<lparr>discord_token := tok\<rparr>) = Inr s'"
        and "load_user s' i = Some (u\<lparr>discord_token := tok\<rparr>)"
      by blast
    with 4 assms(1,3) show ?thesis
      by (simp add: connect_platform_def login_required_def)
  qed
qed

lemma disconnect_platform_result:
  assumes "load_user s i = Some u"
    and "p \<in> {''twitch'', ''twitter'', ''instagram'', ''discord''}"
  shows "\<exists>s'. commit_user s u
                 (if p = ''twitch'' then u\<lparr>twitch_token := JNull\<rparr>
                  else if p = ''twitter'' then u\<lparr>twitter_token := JNull\<rparr>
                  else if p = ''instagram'' then u\<lparr>instagram_token := JNull\<rparr>
                  else u\<lparr>discord_token := JNull\<rparr>) = Inr s'
           \<and> disconnect_platform s (Some i) p
               = (Inr (Message (p @ '' disconnected successfully''), 200), s')
           \<and> load_user s' i
               = Some (if p = ''twitch'' then u\<lparr>twitch_token := JNull\<rparr>
                       else if p = ''twitter'' then u\<lparr>twitter_token := JNull\<rparr>
                       else if p = ''instagram'' then u\<lparr>instagram_token := JNull\<rparr>
                       else u\<lparr>discord_token := JNull\<rparr>)"
proof -
  have b: "bind_changed old JNull = Inr JNull" for old
    by (rule bind_changed_null)
  from assms(2) consider "p = ''twitch''" | "p = ''twitter''" | "p = ''instagram''"
    | "p = ''discord''"
    by auto
  then show ?thesis
  proof cases
    case 1
    from stores_twitch [OF assms(1) b] obtain s'
      where "commit_user s u (u\<lparr>twitch_token := JNull\<rparr>) = Inr s'"
        and "load_user s' i = Some (u\<lparr>twitch_token := JNull\<rparr>)"
      by blast
    with 1 assms(1) show ?thesis
      by (simp add: disconnect_platform_def login_required_def)
  next
    case 2
    from stores_twitter [OF assms(1) b] obtain s'
      where "commit_user s u (u\<lparr>twitter_token := JNull\<rparr>) = Inr s'"
        and "load_user s' i = Some (u\<lparr>twitter_token := JNull\<rparr>)"
      by blast
    with 2 assms(1) show ?thesis
      by (simp add: disconnect_platform_def login_required_def)
  next
    case 3
    from stores_instagram [OF assms(1) b] obtain s'
      where "commit_user s u (u\<lparr>instagram_token := JNull\<rparr>) = Inr s'"
        and "load_user s' i = Some (u\<lparr>instagram_token := JNull\<rparr>)"
      by blast
    with 3 assms(1) show ?thesis
      by (simp add: disconnect_platform_def login_required_def)
  next
    case 4
    from stores_discord [OF assms(1) b] obtain s'
      where "commit_user s u (u\<lparr>discord_token := JNull\<rparr>) = Inr s'"
        and "load_user s' i = Some (u\<lparr>discord_token := JNull\<rparr>)"
      by blast
    with 4 assms(1) show ?thesis
      by (simp add: disconnect_platform_def login_required_def)
  qed
qed

lemma get_profile_flag:
  assumes "load_user s i = Some u"
  shows "connected_flag (fst (get_profile s (Some i))) p
     = (if p = ''twitch'' then Some (py_bool (twitch_token u))
        else if p = ''twitter'' then Some (py_bool (twitter_token u))
        else if p = ''instagram'' then Some (py_bool (instagram_token u))
        else if p = ''discord'' then Some (py_bool (discord_token u))
        else None)"
  using assms by (simp add: get_profile_def login_required_def)

text \<open>
  Claim C7. In the session of a stored user, \<^verbatim>\<open>connect_platform\<close> with a platform name
  other than \<^verbatim>\<open>twitch\<close>, \<^verbatim>\<open>twitter\<close>, \<^verbatim>\<open>instagram\<close> and \<^verbatim>\<open>discord\<close> answers
  400 \<^verbatim>\<open>Invalid platform\<close> and leaves the whole store, so the user's four token
  fields, as it was; with one of the four names it answers 200 and the user's row is
  the old row with the token of the body (a string, or null), whatever it is, in that
  platform's field.
\<close>

theorem connect_platform_closed_set:
  assumes "load_user s i = Some u" and "data ''token'' = Some tok"
    and "tok = JNull \<or> (\<exists>t. tok = JStr t)"
  shows "(platform \<notin> {''twitch'', ''twitter'', ''instagram'', ''discord''} \<longrightarrow>
            connect_platform s (Some i) platform data = (Inr (Error ''Invalid platform'', 400), s))
       \<and> (platform = ''twitch'' \<longrightarrow>
            fst (connect_platform s (Some i) platform data)
              = Inr (Message ''twitch connected successfully'', 200)
          \<and> load_user (snd (connect_platform s (Some i) platform data)) i
              = Some (u\<lparr>twitch_token := tok\<rparr>))
       \<and> (platform = ''twitter'' \<longrightarrow>
            fst (connect_platform s (Some i) platform data)
              = Inr (Message ''twitter connected successfully'', 200)
          \<and> load_user (snd (connect_platform s (Some i) platform data)) i
              = Some (u\<lparr>twitter_token := tok\<rparr>))
       \<and> (platform = ''instagram'' \<longrightarrow>
            fst (connect_platform s (Some i) platform data)
              = Inr (Message ''instagram connected successfully'', 200)
          \<and> load_user (snd (connect_platform s (Some i) platform data)) i
              = Some (u\<lparr>instagram_token := tok\<rparr>))
       \<and> (platform = ''discord'' \<longrightarrow>
            fst (connect_platform s (Some i) platform data)
              = Inr (Message ''discord connected successfully'', 200)
          \<and> load_user (snd (connect_platform s (Some i) platform data)) i
              = Some (u\<lparr>discord_token := tok\<rparr>))"
proof -
  from assms(2) have d: "dict_get data ''token'' JNull = tok"
    by (simp add: dict_get_def)
  have valid: "fst (connect_platform s (Some i) p data)
        = Inr (Message (p @ '' connected successfully''), 200)
      \<and> load_user (snd (connect_platform s (Some i) p data)) i
        = Some (if p = ''twitch'' then u\<lparr>twitch_token := tok\<rparr>
                else if p = ''twitter'' then u\<lparr>twitter_token := tok\<rparr>
                else if p = ''instagram'' then u\<lparr>instagram_token := tok\<rparr>
                else u\<lparr>discord_token := tok\<rparr>)"
    if "p \<in> {''twitch'', ''twitter'', ''instagram'', ''discord''}" for p
    using connect_platform_text [OF assms(1) that d assms(3)] by auto
  have 0: "platform \<notin> {''twitch'', ''twitter'', ''instagram'', ''discord''} \<longrightarrow>
      connect_platform s (Some i) platform data = (Inr (Error ''Invalid platform'', 400), s)"
    using assms(1) by (simp add: connect_platform_def login_required_def)
  have 1: "platform = ''twitch'' \<longrightarrow>
      fst (connect_platform s (Some i) platform data)
        = Inr (Message ''twitch connected successfully'', 200)
      \<and> load_user (snd (connect_platform s (Some i) platform data)) i
        = Some (u\<lparr>twitch_token := tok\<rparr>)"
    using valid [of "''twitch''"] by simp
  have 2: "platform = ''twitter'' \<longrightarrow>
      fst (connect_platform s (Some i) platform data)
        = Inr (Message ''twitter connected successfully'', 200)
      \<and> load_user (snd (connect_platform s (Some i) platform data)) i
        = Some (u\<lparr>twitter_token := tok\<rparr>)"
    using valid [of "''twitter''"] by simp
  have 3: "platform = ''instagram'' \<longrightarrow>
      fst (connect_platform s (Some i) platform data)
        = Inr (Message ''instagram connected successfully'', 200)
      \<and> load_user (snd (connect_platform s (Some i) platform data)) i
        = Some (u\<lparr>instagram_token := tok\<rparr>)"
    using valid [of "''instagram''"] by simp
  have 4: "platform = ''discord'' \<longrightarrow>
      fst (connect_platform s (Some i) platform data)
        = Inr (Message ''discord connected successfully'', 200)
      \<and> load_user (snd (connect_platform s (Some i) platform data)) i
        = Some (u\<lparr>discord_token := tok\<rparr>)"
    using valid [of "''discord''"] by simp
  show ?thesis
    by (intro conjI 0 1 2 3 4)
qed

theorem connect_platform_closed_set_witness:
  "load_user sample_db 1 = Some alice
   \<and> connect_platform sample_db (Some 1) ''myspace'' [''token'' \<mapsto> JStr ''x'']
       = (Inr (Error ''Invalid platform'', 400), sample_db)
   \<and> fst (connect_platform sample_db (Some 1) ''twitch'' [''token'' \<mapsto> JStr ''tok123''])
       = Inr (Message ''twitch connected successfully'', 200)
   \<and> load_user (snd (connect_platform sample_db (Some 1) ''twitch'' [''token'' \<mapsto> JStr ''tok123''])) 1
       = Some (alice\<lparr>twitch_token := JStr ''tok123''\<rparr>)"
proof -
  have x: "[''token'' \<mapsto> JStr ''x''] ''token'' = Some (JStr ''x'')"
    by simp
  have k: "[''token'' \<mapsto> JStr ''tok123''] ''token'' = Some (JStr ''tok123'')"
    by simp
  have n: "''myspace'' \<notin> {''twitch'', ''twitter'', ''instagram'', ''discord''}"
    by simp
  have sx: "JStr ''x'' = JNull \<or> (\<exists>t. JStr ''x'' = JStr t)"
    by simp
  have sk: "JStr ''tok123'' = JNull \<or> (\<exists>t. JStr ''tok123'' = JStr t)"
    by simp
  from connect_platform_closed_set
    [where data = "[''token'' \<mapsto> JStr ''x'']" and platform = "''myspace''",
      OF load_user_sample_alice x sx] n
  have 1: "connect_platform sample_db (Some 1) ''myspace'' [''token'' \<mapsto> JStr ''x'']
       = (Inr (Error ''Invalid platform'', 400), sample_db)"
    by blast
  from connect_platform_closed_set
    [where data = "[''token'' \<mapsto> JStr ''tok123'']" and platform = "''twitch''",
      OF load_user_sample_alice k sk]
  have 2: "fst (connect_platform sample_db (Some 1) ''twitch'' [''token'' \<mapsto> JStr ''tok123''])
         = Inr (Message ''twitch connected successfully'', 200)
       \<and> load_user (snd (connect_platform sample_db (Some 1) ''twitch''
             [''token'' \<mapsto> JStr ''tok123''])) 1
         = Some (alice\<lparr>twitch_token := JStr ''tok123''\<rparr>)"
    by blast
  from load_user_sample_alice 1 2 show ?thesis
    by blast
qed

text \<open>
  Claim C8. For a valid platform name and a token string, the profile read after
  \<^verbatim>\<open>connect_platform\<close> reports the platform's flag as true exactly when the token is
  not the empty string, and the profile read after \<^verbatim>\<open>disconnect_platform\<close> (after
  that connect, or in any store) reports the flag as false.
\<close>

theorem connect_disconnect_profile_roundtrip:
  assumes "load_user s i = Some u"
    and "p \<in> {''twitch'', ''twitter'', ''instagram'', ''discord''}"
    and "data ''token'' = Some (JStr t)"
  shows "connected_flag (fst (get_profile (snd (connect_platform s (Some i) p data)) (Some i))) p
           = Some (t \<noteq> [])
       \<and> connected_flag (fst (get_profile
             (snd (disconnect_platform (snd (connect_platform s (Some i) p data)) (Some i) p))
             (Some i))) p = Some False
       \<and> connected_flag (fst (get_profile (snd (disconnect_platform s (Some i) p)) (Some i))) p
           = Some False"
proof -
  let ?U = "\<lambda>tok. if p = ''twitch'' then u\<lparr>twitch_token := tok\<rparr>
                else if p = ''twitter'' then u\<lparr>twitter_token := tok\<rparr>
                else if p = ''instagram'' then u\<lparr>instagram_token := tok\<rparr>
                else u\<lparr>discord_token := tok\<rparr>"
  from assms(3) have d: "dict_get data ''token'' JNull = JStr t"
    by (simp add: dict_get_def)
  have tx: "JStr t = JNull \<or> (\<exists>x. JStr t = JStr x)"
    by simp
  from connect_platform_text [OF assms(1,2) d tx] obtain s1
    where c: "connect_platform s (Some i) p data
        = (Inr (Message (p @ '' connected successfully''), 200), s1)"
      and l1: "load_user s1 i = Some (?U (JStr t))"
    by blast
  from disconnect_platform_result [OF l1 assms(2)] obtain s2
    where d2: "disconnect_platform s1 (Some i) p
        = (Inr (Message (p @ '' disconnected successfully''), 200), s2)"
      and l2: "load_user s2 i
        = Some (if p = ''twitch'' then (?U (JStr t))\<lparr>twitch_token := JNull\<rparr>
                else if p = ''twitter'' then (?U (JStr t))\<lparr>twitter_token := JNull\<rparr>
                else if p = ''instagram'' then (?U (JStr t))\<lparr>instagram_token := JNull\<rparr>
                else (?U (JStr t))\<lparr>discord_token := JNull\<rparr>)"
    by blast
  from disconnect_platform_result [OF assms(1,2)] obtain s3
    where d3: "disconnect_platform s (Some i) p
        = (Inr (Message (p @ '' disconnected successfully''), 200), s3)"
      and l3: "load_user s3 i = Some (?U JNull)"
    by blast
  have 1: "connected_flag (fst (get_profile s1 (Some i))) p = Some (t \<noteq> [])"
    using assms(2) by (auto simp: get_profile_flag [OF l1])
  have 2: "connected_flag (fst (get_profile s2 (Some i))) p = Some False"
    using assms(2) by (auto simp: get_profile_flag [OF l2])
  have 3: "connected_flag (fst (get_profile s3 (Some i))) p = Some False"
    using assms(2) by (auto simp: get_profile_flag [OF l3])
  from 1 2 3 c d2 d3 show ?thesis
    by simp
qed

theorem connect_disconnect_profile_roundtrip_witness:
  "connected_flag (fst (get_profile
       (snd (connect_platform sample_db (Some 1) ''twitch'' [''token'' \<mapsto> JStr ''tok123'']))
       (Some 1))) ''twitch'' = Some True
   \<and> connected_flag (fst (get_profile
       (snd (disconnect_platform
          (snd (connect_platform sample_db (Some 1) ''twitch'' [''token'' \<mapsto> JStr ''tok123'']))
          (Some 1) ''twitch''))
       (Some 1))) ''twitch'' = Some False
   \<and> connected_flag (fst (get_profile
       (snd (connect_platform sample_db (Some 1) ''discord'' [''token'' \<mapsto> JStr '''']))
       (Some 1))) ''discord'' = Some False"
proof -
  have k: "[''token'' \<mapsto> JStr ''tok123''] ''token'' = Some (JStr ''tok123'')"
    by simp
  have e: "[''token'' \<mapsto> JStr ''''] ''token'' = Some (JStr '''')"
    by simp
  have p: "''twitch'' \<in> {''twitch'', ''twitter'', ''instagram'', ''discord''}"
    by simp
  have q: "''discord'' \<in> {''twitch'', ''twitter'', ''instagram'', ''discord''}"
    by simp
  from connect_disconnect_profile_roundtrip
      [where data = "[''token'' \<mapsto> JStr ''tok123'']", OF load_user_sample_alice p k]
    connect_disconnect_profile_roundtrip
      [where data = "[''token'' \<mapsto> JStr '''']", OF load_user_sample_alice q e]
  show ?thesis
    by simp
qed

text \<open>
  Claim C10. For a valid platform name, \<^verbatim>\<open>connect_platform\<close> with a body that has no
  key \<^verbatim>\<open>token\<close> answers 200, stores \<^verbatim>\<open>None\<close> in the platform's field and leaves the
  store that \<^verbatim>\<open>disconnect_platform\<close> leaves, which answers 200 too; the profile read
  afterwards reports the platform's flag as false. The two responses differ in the
  verb of their message only.
\<close>

theorem connect_without_token_is_disconnect:
  assumes "load_user s i = Some u"
    and "p \<in> {''twitch'', ''twitter'', ''instagram'', ''discord''}"
    and "data ''token'' = None"
  shows "connect_platform s (Some i) p data
           = (Inr (Message (p @ '' connected successfully''), 200),
              snd (disconnect_platform s (Some i) p))
       \<and> fst (disconnect_platform s (Some i) p)
           = Inr (Message (p @ '' disconnected successfully''), 200)
       \<and> load_user (snd (connect_platform s (Some i) p data)) i
           = Some (if p = ''twitch'' then u\<lparr>twitch_token := JNull\<rparr>
                   else if p = ''twitter'' then u\<lparr>twitter_token := JNull\<rparr>
                   else if p = ''instagram'' then u\<lparr>instagram_token := JNull\<rparr>
                   else u\<lparr>discord_token := JNull\<rparr>)
       \<and> connected_flag (fst (get_profile (snd (connect_platform s (Some i) p data)) (Some i))) p
           = Some False"
proof -
  let ?U = "if p = ''twitch'' then u\<lparr>twitch_token := JNull\<rparr>
            else if p = ''twitter'' then u\<lparr>twitter_token := JNull\<rparr>
            else if p = ''instagram'' then u\<lparr>instagram_token := JNull\<rparr>
            else u\<lparr>discord_token := JNull\<rparr>"
  from assms(3) have d: "dict_get data ''token'' JNull = JNull"
    by (simp add: dict_get_def)
  have tx: "JNull = JNull \<or> (\<exists>x. JNull = JStr x)"
    by simp
  from connect_platform_text [OF assms(1,2) d tx] obtain s1
    where m1: "commit_user s u ?U = Inr s1"
      and c: "connect_platform s (Some i) p data
        = (Inr (Message (p @ '' connected successfully''), 200), s1)"
      and l1: "load_user s1 i = Some ?U"
    by blast
  from disconnect_platform_result [OF assms(1,2)] obtain s2
    where m2: "commit_user s u ?U = Inr s2"
      and d2: "disconnect_platform s (Some i) p
        = (Inr (Message (p @ '' disconnected successfully''), 200), s2)"
    by blast
  from m1 m2 have same: "s2 = s1"
    by simp
  have f: "connected_flag (fst (get_profile s1 (Some i))) p = Some False"
    using assms(2) by (auto simp: get_profile_flag [OF l1])
  from c d2 same l1 f show ?thesis
    by simp
qed

theorem connect_without_token_is_disconnect_witness:
  "connect_platform sample_db (Some 1) ''twitter'' Map.empty
     = (Inr (Message ''twitter connected successfully'', 200),
        snd (disconnect_platform sample_db (Some 1) ''twitter''))
   \<and> load_user (snd (connect_platform sample_db (Some 1) ''twitter'' Map.empty)) 1
     = Some (alice\<lparr>twitter_token := JNull\<rparr>)
   \<and> connected_flag (fst (get_profile sample_db (Some 1))) ''twitter'' = Some True
   \<and> connected_flag (fst (get_profile
        (snd (connect_platform sample_db (Some 1) ''twitter'' Map.empty)) (Some 1))) ''twitter''
     = Some False"
proof -
  have p: "''twitter'' \<in> {''twitch'', ''twitter'', ''instagram'', ''discord''}"
    by simp
  have e: "(Map.empty :: json_object) ''token'' = None"
    by simp
  have b: "connected_flag (fst (get_profile sample_db (Some 1))) ''twitter'' = Some True"
    by (simp add: get_profile_def login_required_def load_user_sample_alice alice_def)
  note t = connect_without_token_is_disconnect
    [where data = Map.empty, OF load_user_sample_alice p e]
  have 1: "connect_platform sample_db (Some 1) ''twitter'' Map.empty
     = (Inr (Message ''twitter connected successfully'', 200),
        snd (disconnect_platform sample_db (Some 1) ''twitter''))"
    using t [THEN conjunct1] by simp
  have 3: "load_user (snd (connect_platform sample_db (Some 1) ''twitter'' Map.empty)) 1
     = Some (alice\<lparr>twitter_token := JNull\<rparr>)"
    using t [THEN conjunct2, THEN conjunct2, THEN conjunct1] by simp
  note 4 = t [THEN conjunct2, THEN conjunct2, THEN conjunct2]
  show ?thesis
    by (intro conjI 1 3 4 b)
qed

section \<open>Login\<close>


lemma find_Some_holds: "find P xs = Some x \<Longrightarrow> P x \<and> x \<in> set xs"
  by (induction xs) (auto split: if_splits)




section \<open>Registration\<close>

lemma find_username_None_iff:
  "(find (\<lambda>u. username u = n) us = None) = (n \<notin> set (map username us))"
  by (induction us) auto

lemma find_email_None_iff:
  "(find (\<lambda>u. email u = e) us = None) = (e \<notin> set (map email us))"
  by (induction us) auto

lemma filter_username_absent:
  "n \<notin> set (map username us) \<Longrightarrow> filter (\<lambda>u. username u = n) us = []"
  by (induction us) auto

text \<open>
  Claim C3. A registration with a username, an email and a password (strings) answers
  400 and leaves the store as it was when a stored user has that username or that
  email; otherwise it answers 201 and the user table is the old one followed by one
  new row, whose credential is the password as given. When a registration succeeded, a
  second one with the same username answers 400 \<^verbatim>\<open>Username already exists\<close>, changes
  nothing, and the store holds exactly one user of that username.
\<close>

theorem register_conflict_or_create:
  assumes "data ''username'' = Some (JStr n)" and "data ''email'' = Some (JStr e)"
    and "data ''password'' = Some (JStr p)"
  shows "(if JStr n \<in> set (map username (users s))
          then register now s data = (Inr (Error ''Username already exists'', 400), s)
          else if JStr e \<in> set (map email (users s))
          then register now s data = (Inr (Error ''Email already exists'', 400), s)
          else register now s data
            = (Inr (Message ''User registered successfully'', 201),
               s\<lparr>users := users s @
                   [\<lparr>u_id = next_id (map u_id (users s)), username = JStr n, email = JStr e,
                     password_hash = JStr p,
                     twitch_token = JNull, twitter_token = JNull,
                     instagram_token = JNull, discord_token = JNull,
                     u_created_at = now\<rparr>]\<rparr>))
       \<and> (fst (register now s data) = Inr (Message ''User registered successfully'', 201)
            \<and> data' ''username'' = Some (JStr n) \<longrightarrow>
            register now' (snd (register now s data)) data'
              = (Inr (Error ''Username already exists'', 400), snd (register now s data))
          \<and> length (filter (\<lambda>u. username u = JStr n)
                (users (snd (register now' (snd (register now s data)) data')))) = 1)"
proof -
  let ?new = "\<lparr>u_id = next_id (map u_id (users s)), username = JStr n, email = JStr e,
      password_hash = JStr p, twitch_token = JNull, twitter_token = JNull,
      instagram_token = JNull, discord_token = JNull, u_created_at = now\<rparr>"
  let ?s1 = "s\<lparr>users := users s @ [?new]\<rparr>"
  have taken: "register now s data = (Inr (Error ''Username already exists'', 400), s)"
    if "JStr n \<in> set (map username (users s))"
    using that assms(1) by (simp add: register_def find_username_None_iff)
  have mail: "register now s data = (Inr (Error ''Email already exists'', 400), s)"
    if "JStr n \<notin> set (map username (users s))" "JStr e \<in> set (map email (users s))"
    using that assms(1,2)
    by (simp add: register_def find_username_None_iff find_email_None_iff)
  have fresh: "register now s data = (Inr (Message ''User registered successfully'', 201), ?s1)"
    if "JStr n \<notin> set (map username (users s))" "JStr e \<notin> set (map email (users s))"
    using that assms
    by (simp add: register_def find_username_None_iff find_email_None_iff insert_user_def)
  have A: "if JStr n \<in> set (map username (users s))
          then register now s data = (Inr (Error ''Username already exists'', 400), s)
          else if JStr e \<in> set (map email (users s))
          then register now s data = (Inr (Error ''Email already exists'', 400), s)
          else register now s data = (Inr (Message ''User registered successfully'', 201), ?s1)"
  proof (cases "JStr n \<in> set (map username (users s))")
    case True
    then show ?thesis by (simp add: taken)
  next
    case nu: False
    show ?thesis
    proof (cases "JStr e \<in> set (map email (users s))")
      case True
      with nu show ?thesis by (simp add: mail)
    next
      case False
      with nu show ?thesis by (simp add: fresh)
    qed
  qed
  have B: "fst (register now s data) = Inr (Message ''User registered successfully'', 201)
            \<and> data' ''username'' = Some (JStr n) \<longrightarrow>
            register now' (snd (register now s data)) data'
              = (Inr (Error ''Username already exists'', 400), snd (register now s data))
          \<and> length (filter (\<lambda>u. username u = JStr n)
                (users (snd (register now' (snd (register now s data)) data')))) = 1"
  proof (intro impI, elim conjE)
    assume ok: "fst (register now s data) = Inr (Message ''User registered successfully'', 201)"
      and d': "data' ''username'' = Some (JStr n)"
    have nu: "JStr n \<notin> set (map username (users s))"
    proof
      assume "JStr n \<in> set (map username (users s))"
      then have "register now s data = (Inr (Error ''Username already exists'', 400), s)"
        by (rule taken)
      with ok show False by simp
    qed
    have ne: "JStr e \<notin> set (map email (users s))"
    proof
      assume "JStr e \<in> set (map email (users s))"
      with nu have "register now s data = (Inr (Error ''Email already exists'', 400), s)"
        by (rule mail)
      with ok show False by simp
    qed
    from nu ne have r: "register now s data
        = (Inr (Message ''User registered successfully'', 201), ?s1)"
      by (rule fresh)
    have "JStr n \<in> set (map username (users ?s1))"
      by simp
    with d' have second: "register now' ?s1 data'
        = (Inr (Error ''Username already exists'', 400), ?s1)"
      by (simp add: register_def find_username_None_iff)
    from nu have count: "length (filter (\<lambda>u. username u = JStr n) (users ?s1)) = 1"
      by (simp add: filter_username_absent)
    from r second count
    show "register now' (snd (register now s data)) data'
              = (Inr (Error ''Username already exists'', 400), snd (register now s data))
          \<and> length (filter (\<lambda>u. username u = JStr n)
                (users (snd (register now' (snd (register now s data)) data')))) = 1"
      by simp
  qed
  from A B show ?thesis
    by (rule conjI)
qed

theorem register_conflict_or_create_witness:
  "register 60 sample_db
      [''username'' \<mapsto> JStr ''alice'', ''email'' \<mapsto> JStr ''a@example.org'',
       ''password'' \<mapsto> JStr ''pw'']
     = (Inr (Error ''Username already exists'', 400), sample_db)
   \<and> register 60 sample_db
      [''username'' \<mapsto> JStr ''carol'', ''email'' \<mapsto> JStr ''bob@example.org'',
       ''password'' \<mapsto> JStr ''pw'']
     = (Inr (Error ''Email already exists'', 400), sample_db)
   \<and> register 60 sample_db
      [''username'' \<mapsto> JStr ''carol'', ''email'' \<mapsto> JStr ''carol@example.org'',
       ''password'' \<mapsto> JStr ''pw'']
     = (Inr (Message ''User registered successfully'', 201),
        sample_db\<lparr>users := [alice, bob,
           \<lparr>u_id = 3, username = JStr ''carol'', email = JStr ''carol@example.org'',
            password_hash = JStr ''pw'', twitch_token = JNull, twitter_token = JNull,
            instagram_token = JNull, discord_token = JNull, u_created_at = 60\<rparr>]\<rparr>)
   \<and> fst (register 70
        (snd (register 60 sample_db
           [''username'' \<mapsto> JStr ''carol'', ''email'' \<mapsto> JStr ''carol@example.org'',
            ''password'' \<mapsto> JStr ''pw'']))
        [''username'' \<mapsto> JStr ''carol'', ''email'' \<mapsto> JStr ''c2@example.org'',
         ''password'' \<mapsto> JStr ''pw2''])
     = Inr (Error ''Username already exists'', 400)
   \<and> length (filter (\<lambda>u. username u = JStr ''carol'')
        (users (snd (register 70
          (snd (register 60 sample_db
             [''username'' \<mapsto> JStr ''carol'', ''email'' \<mapsto> JStr ''carol@example.org'',
              ''password'' \<mapsto> JStr ''pw'']))
          [''username'' \<mapsto> JStr ''carol'', ''email'' \<mapsto> JStr ''c2@example.org'',
           ''password'' \<mapsto> JStr ''pw2''])))) = 1"
proof -
  let ?d1 = "[''username'' \<mapsto> JStr ''alice'', ''email'' \<mapsto> JStr ''a@example.org'',
       ''password'' \<mapsto> JStr ''pw'']"
  let ?d2 = "[''username'' \<mapsto> JStr ''carol'', ''email'' \<mapsto> JStr ''bob@example.org'',
       ''password'' \<mapsto> JStr ''pw'']"
  let ?d3 = "[''username'' \<mapsto> JStr ''carol'', ''email'' \<mapsto> JStr ''carol@example.org'',
       ''password'' \<mapsto> JStr ''pw'']"
  let ?d4 = "[''username'' \<mapsto> JStr ''carol'', ''email'' \<mapsto> JStr ''c2@example.org'',
         ''password'' \<mapsto> JStr ''pw2'']"
  have 1: "register 60 sample_db ?d1 = (Inr (Error ''Username already exists'', 400), sample_db)"
    using register_conflict_or_create
      [where data = ?d1 and n = "''alice''" and e = "''a@example.org''" and p = "''pw''"
        and s = sample_db and now = 60, THEN conjunct1]
    by (simp add: sample_db_def alice_def bob_def)
  have 2: "register 60 sample_db ?d2 = (Inr (Error ''Email already exists'', 400), sample_db)"
    using register_conflict_or_create
      [where data = ?d2 and n = "''carol''" and e = "''bob@example.org''" and p = "''pw''"
        and s = sample_db and now = 60, THEN conjunct1]
    by (simp add: sample_db_def alice_def bob_def)
  have h1: "?d3 ''username'' = Some (JStr ''carol'')"
    by simp
  have h2: "?d3 ''email'' = Some (JStr ''carol@example.org'')"
    by simp
  have h3: "?d3 ''password'' = Some (JStr ''pw'')"
    by simp
  note t = register_conflict_or_create
      [where data = ?d3 and s = sample_db and now = 60 and data' = ?d4 and now' = 70,
        OF h1 h2 h3]
  have 3: "register 60 sample_db ?d3
     = (Inr (Message ''User registered successfully'', 201),
        sample_db\<lparr>users := [alice, bob,
           \<lparr>u_id = 3, username = JStr ''carol'', email = JStr ''carol@example.org'',
            password_hash = JStr ''pw'', twitch_token = JNull, twitter_token = JNull,
            instagram_token = JNull, discord_token = JNull, u_created_at = 60\<rparr>]\<rparr>)"
    using t [THEN conjunct1]
    by (simp add: sample_db_def alice_def bob_def next_id_def)
  have ok: "fst (register 60 sample_db ?d3) = Inr (Message ''User registered successfully'', 201)"
    by (simp add: 3)
  have d: "?d4 ''username'' = Some (JStr ''carol'')"
    by simp
  from t [THEN conjunct2] ok d
  have 4: "register 70 (snd (register 60 sample_db ?d3)) ?d4
              = (Inr (Error ''Username already exists'', 400), snd (register 60 sample_db ?d3))
          \<and> length (filter (\<lambda>u. username u = JStr ''carol'')
                (users (snd (register 70 (snd (register 60 sample_db ?d3)) ?d4)))) = 1"
    by blast
  from 4 have 5: "fst (register 70 (snd (register 60 sample_db ?d3)) ?d4)
      = Inr (Error ''Username already exists'', 400)"
    by simp
  note 6 = 4 [THEN conjunct2]
  show ?thesis
    by (intro conjI 1 2 3 5 6)
qed

section \<open>Creating content\<close>

lemma le_foldr_max: "x \<in> set ids \<Longrightarrow> x \<le> foldr max ids (0::int)"
  by (induction ids) auto

lemma next_id_fresh: "next_id ids \<notin> set ids"
proof
  assume "next_id ids \<in> set ids"
  then have "next_id ids \<le> foldr max ids 0"
    by (rule le_foldr_max)
  then show False
    by (simp add: next_id_def)
qed

lemma load_user_scheduled_contents_update:
  "load_user (s\<lparr>scheduled_contents := cs\<rparr>) i = load_user s i"
  by (simp add: load_user_def)

lemma bind_text_default:
  "bind_text (dict_get data k JNull) = Inr b \<Longrightarrow>
   bind_text (dict_get data k (JStr d)) = Inr (case data k of None \<Rightarrow> JStr d | Some v \<Rightarrow> b)"
  by (cases "data k") (simp_all add: dict_get_def)

lemma column_default_bound:
  "bind_text (dict_get data k JNull) = Inr b \<Longrightarrow>
   column_default d (case data k of None \<Rightarrow> JStr d | Some v \<Rightarrow> b)
     = (if b = JNull then JStr d else b)"
  by (cases "data k") (auto simp: dict_get_def column_default_def)

lemma column_default_null: "column_default d JNull = JStr d"
  by (simp add: column_default_def)

lemma u_id_alice: "u_id alice = 1"
  by (simp add: alice_def)

lemma load_user_sample_alice_unfolded:
  "load_user \<lparr>users = [alice, bob], scheduled_contents = cs\<rparr> 1 = Some alice"
  by (simp add: load_user_def alice_def)

text \<open>
  Claim C5, as the claim itself states it, fails: a create request in the session of a
  stored user, with a title, a content and a timestamp that parses, whose
  \<^verbatim>\<open>platforms\<close> is the JSON array \<^verbatim>\<open>["twitch"]\<close>, ends in the ProgrammingError of the
  driver, which cannot bind a list, and stores no row.
\<close>

theorem create_content_array_platforms_counterexample:
  "load_user sample_db 1 = Some alice
   \<and> sample_fromisoformat ''2025-01-01T00:00:00'' = Some 400
   \<and> create_content sample_fromisoformat 60 sample_db (Some 1)
        [''title'' \<mapsto> JStr ''t'', ''content'' \<mapsto> JStr ''c'',
         ''scheduled_for'' \<mapsto> JStr ''2025-01-01T00:00:00'',
         ''platforms'' \<mapsto> JArr [JStr ''twitch'']]
       = (Inl ProgrammingError, sample_db)"
  by (simp add: load_user_sample_alice create_content_def login_required_def
      parse_datetime_def sample_fromisoformat_def insert_content_def dict_get_def)

text \<open>
  Claim C5, amended. In the session of a stored user, a create request whose body has a
  title and a content (strings) and a \<^verbatim>\<open>scheduled_for\<close> string that parses, and whose
  \<^verbatim>\<open>content_type\<close>, \<^verbatim>\<open>platforms\<close>, \<^verbatim>\<open>hashtags\<close>, \<^verbatim>\<open>mentions\<close> and \<^verbatim>\<open>files\<close>, where the
  body has them, are values the driver can bind (null, a string, a boolean, an integer
  of 64 bits), answers 201 with the primary key of one new row, a key no older row
  has. The row is appended to the table; it is owned by the user, holds the title, the
  content and the parsed time and has status \<^verbatim>\<open>pending\<close>. Its content type, platforms
  and files are the text of the value in the body, and \<^verbatim>\<open>text\<close>, \<^verbatim>\<open>[]\<close> and \<^verbatim>\<open>[]\<close> when
  the body has no key for them or has null. The list read afterwards in the same
  session has an entry of that key, and every entry of that key has status \<^verbatim>\<open>pending\<close>.
\<close>

theorem create_content_defaults_and_listing:
  assumes "load_user s i = Some u"
    and "data ''title'' = Some (JStr t)" and "data ''content'' = Some (JStr c)"
    and "data ''scheduled_for'' = Some (JStr w)" and "fromisoformat w = Some d"
    and "bind_text (dict_get data ''content_type'' JNull) = Inr ct"
    and "bind_text (dict_get data ''platforms'' JNull) = Inr pl"
    and "bind_text (dict_get data ''hashtags'' JNull) = Inr ht"
    and "bind_text (dict_get data ''mentions'' JNull) = Inr mn"
    and "bind_text (dict_get data ''files'' JNull) = Inr fl"
  shows "\<exists>row js.
       create_content fromisoformat now s (Some i) data
         = (Inr (Created (c_id row) ''Content scheduled successfully'', 201),
            s\<lparr>scheduled_contents := scheduled_contents s @ [row]\<rparr>)
     \<and> c_id row \<notin> set (map c_id (scheduled_contents s))
     \<and> user_id row = i \<and> title row = JStr t \<and> content row = JStr c \<and> scheduled_for row = d
     \<and> status row = JStr ''pending''
     \<and> content_type row = (if ct = JNull then JStr ''text'' else ct)
     \<and> platforms row = (if pl = JNull then JStr ''[]'' else pl)
     \<and> files row = (if fl = JNull then JStr ''[]'' else fl)
     \<and> hashtags row = ht \<and> mentions row = mn
     \<and> (data ''content_type'' = None \<longrightarrow> content_type row = JStr ''text'')
     \<and> (data ''platforms'' = None \<longrightarrow> platforms row = JStr ''[]'')
     \<and> (data ''files'' = None \<longrightarrow> files row = JStr ''[]'')
     \<and> (\<forall>x. data ''content_type'' = Some (JStr x) \<longrightarrow> content_type row = JStr x)
     \<and> (\<forall>x. data ''platforms'' = Some (JStr x) \<longrightarrow> platforms row = JStr x)
     \<and> (\<forall>x. data ''files'' = Some (JStr x) \<longrightarrow> files row = JStr x)
     \<and> listed (fst (get_content
            (snd (create_content fromisoformat now s (Some i) data)) (Some i))) = Some js
     \<and> (\<exists>j \<in> set js. j_id j = c_id row \<and> j_status j = JStr ''pending'')
     \<and> (\<forall>j \<in> set js. j_id j = c_id row \<longrightarrow> j_status j = JStr ''pending'')"
proof -
  let ?nid = "next_id (map c_id (scheduled_contents s))"
  let ?row = "\<lparr>c_id = ?nid, title = JStr t, content = JStr c,
      content_type = (if ct = JNull then JStr ''text'' else ct),
      platforms = (if pl = JNull then JStr ''[]'' else pl),
      scheduled_for = d,
      hashtags = ht,
      mentions = mn,
      files = (if fl = JNull then JStr ''[]'' else fl),
      status = JStr ''pending'',
      user_id = i,
      c_created_at = now\<rparr>"
  let ?s' = "s\<lparr>scheduled_contents := scheduled_contents s @ [?row]\<rparr>"
  let ?js = "map content_dict (contents_of ?s' u)"
  from assms(1) have ui: "u_id u = i"
    by (rule load_user_u_id)
  have ins: "insert_content s
             \<lparr>c_id = 0, title = JStr t, content = JStr c,
              content_type = dict_get data ''content_type'' (JStr ''text''),
              platforms = dict_get data ''platforms'' (JStr ''[]''),
              scheduled_for = d,
              hashtags = dict_get data ''hashtags'' JNull,
              mentions = dict_get data ''mentions'' JNull,
              files = dict_get data ''files'' (JStr ''[]''),
              status = JNull,
              user_id = i,
              c_created_at = now\<rparr> = Inr (?nid, ?s')"
    using assms(6-10)
    by (simp add: insert_content_def Let_def bind_text_default column_default_bound
        column_default_null)
  have 1: "create_content fromisoformat now s (Some i) data
         = (Inr (Created (c_id ?row) ''Content scheduled successfully'', 201), ?s')"
    using assms(1-5) ui ins
    by (simp add: create_content_def login_required_def parse_datetime_def)
  have 2: "c_id ?row \<notin> set (map c_id (scheduled_contents s))"
    using next_id_fresh [of "map c_id (scheduled_contents s)"] by simp
  have ra: "user_id ?row = i" and rb: "title ?row = JStr t"
    and rc: "content ?row = JStr c" and rd: "scheduled_for ?row = d"
    and re: "status ?row = JStr ''pending''"
    and rf: "content_type ?row = (if ct = JNull then JStr ''text'' else ct)"
    and rg: "platforms ?row = (if pl = JNull then JStr ''[]'' else pl)"
    and rh: "files ?row = (if fl = JNull then JStr ''[]'' else fl)"
    and ri: "hashtags ?row = ht" and rj: "mentions ?row = mn"
    by simp_all
  have 4: "data ''content_type'' = None \<longrightarrow> content_type ?row = JStr ''text''"
    using assms(6) by (auto simp: dict_get_def)
  have 5: "data ''platforms'' = None \<longrightarrow> platforms ?row = JStr ''[]''"
    using assms(7) by (auto simp: dict_get_def)
  have 6: "data ''files'' = None \<longrightarrow> files ?row = JStr ''[]''"
    using assms(10) by (auto simp: dict_get_def)
  have sa: "\<forall>x. data ''content_type'' = Some (JStr x) \<longrightarrow> content_type ?row = JStr x"
    using assms(6) by (auto simp: dict_get_def)
  have sb: "\<forall>x. data ''platforms'' = Some (JStr x) \<longrightarrow> platforms ?row = JStr x"
    using assms(7) by (auto simp: dict_get_def)
  have sc: "\<forall>x. data ''files'' = Some (JStr x) \<longrightarrow> files ?row = JStr x"
    using assms(10) by (auto simp: dict_get_def)
  have "load_user ?s' i = Some u"
    using assms(1) by (simp add: load_user_scheduled_contents_update)
  then have "get_content ?s' (Some i) = (Inr (ContentList ?js, 200), ?s')"
    by (simp add: get_content_def login_required_def)
  with 1 have 7: "listed (fst (get_content
            (snd (create_content fromisoformat now s (Some i) data)) (Some i))) = Some ?js"
    by simp
  have rows: "set (contents_of ?s' u)
      = {x \<in> set (scheduled_contents s) \<union> {?row}. user_id x = i}"
    using ui by (simp add: set_contents_of)
  then have "?row \<in> set (contents_of ?s' u)"
    by simp
  then have "content_dict ?row \<in> set ?js"
    by simp
  moreover have "j_id (content_dict ?row) = c_id ?row
      \<and> j_status (content_dict ?row) = JStr ''pending''"
    by (simp add: content_dict_def)
  ultimately have 8: "\<exists>j \<in> set ?js. j_id j = c_id ?row \<and> j_status j = JStr ''pending''"
    by blast
  have 9: "\<forall>j \<in> set ?js. j_id j = c_id ?row \<longrightarrow> j_status j = JStr ''pending''"
  proof (intro ballI impI)
    fix j
    assume j: "j \<in> set ?js" and k: "j_id j = c_id ?row"
    from j obtain x where x: "x \<in> set (contents_of ?s' u)" and jx: "j = content_dict x"
      by auto
    from k jx have cx: "c_id x = c_id ?row"
      by (simp add: content_dict_def)
    have "x \<notin> set (scheduled_contents s)"
    proof
      assume "x \<in> set (scheduled_contents s)"
      then have "c_id x \<in> set (map c_id (scheduled_contents s))"
        by simp
      with cx 2 show False
        by simp
    qed
    with x rows have "x = ?row"
      by auto
    with jx show "j_status j = JStr ''pending''"
      by (simp add: content_dict_def)
  qed
  show ?thesis
    by (rule exI[of _ ?row], rule exI[of _ ?js])
      (intro conjI 1 2 ra rb rc rd re rf rg rh ri rj 4 5 6 sa sb sc 7 8 9)
qed

theorem create_content_defaults_and_listing_witness:
  "create_content sample_fromisoformat 60 sample_db (Some 1)
      [''title'' \<mapsto> JStr ''t'', ''content'' \<mapsto> JStr ''c'',
       ''scheduled_for'' \<mapsto> JStr ''2025-01-01T00:00:00'',
       ''content_type'' \<mapsto> JStr ''video'', ''files'' \<mapsto> JNum 7]
     = (Inr (Created 4 ''Content scheduled successfully'', 201),
        sample_db\<lparr>scheduled_contents := [row1, row2, row3,
          \<lparr>c_id = 4, title = JStr ''t'', content = JStr ''c'', content_type = JStr ''video'',
           platforms = JStr ''[]'', scheduled_for = 400, hashtags = JNull, mentions = JNull,
           files = JStr ''7'', status = JStr ''pending'', user_id = 1, c_created_at = 60\<rparr>]\<rparr>)
   \<and> (\<exists>row js.
       create_content sample_fromisoformat 60 sample_db (Some 1)
          [''title'' \<mapsto> JStr ''t'', ''content'' \<mapsto> JStr ''c'',
           ''scheduled_for'' \<mapsto> JStr ''2025-01-01T00:00:00'',
           ''content_type'' \<mapsto> JStr ''video'', ''files'' \<mapsto> JNum 7]
         = (Inr (Created (c_id row) ''Content scheduled successfully'', 201),
            sample_db\<lparr>scheduled_contents := scheduled_contents sample_db @ [row]\<rparr>)
     \<and> status row = JStr ''pending''
     \<and> content_type row = JStr ''video'' \<and> platforms row = JStr ''[]'' \<and> files row = JStr ''7''
     \<and> listed (fst (get_content
            (snd (create_content sample_fromisoformat 60 sample_db (Some 1)
               [''title'' \<mapsto> JStr ''t'', ''content'' \<mapsto> JStr ''c'',
                ''scheduled_for'' \<mapsto> JStr ''2025-01-01T00:00:00'',
                ''content_type'' \<mapsto> JStr ''video'', ''files'' \<mapsto> JNum 7]))
            (Some 1))) = Some js
     \<and> (\<exists>j \<in> set js. j_id j = c_id row \<and> j_status j = JStr ''pending''))"
proof -
  let ?data = "[''title'' \<mapsto> JStr ''t'', ''content'' \<mapsto> JStr ''c'',
       ''scheduled_for'' \<mapsto> JStr ''2025-01-01T00:00:00'',
       ''content_type'' \<mapsto> JStr ''video'', ''files'' \<mapsto> JNum 7]"
  have seven: "show_int 7 = ''7''"
    by (simp add: show_int_def show_nat.simps)
  have h1: "?data ''title'' = Some (JStr ''t'')"
    by simp
  have h2: "?data ''content'' = Some (JStr ''c'')"
    by simp
  have h3: "?data ''scheduled_for'' = Some (JStr ''2025-01-01T00:00:00'')"
    by simp
  have h4: "sample_fromisoformat ''2025-01-01T00:00:00'' = Some 400"
    by (simp add: sample_fromisoformat_def)
  have h5: "bind_text (dict_get ?data ''content_type'' JNull) = Inr (JStr ''video'')"
    by (simp add: dict_get_def)
  have h6: "bind_text (dict_get ?data ''platforms'' JNull) = Inr JNull"
    by (simp add: dict_get_def)
  have h7: "bind_text (dict_get ?data ''hashtags'' JNull) = Inr JNull"
    by (simp add: dict_get_def)
  have h8: "bind_text (dict_get ?data ''mentions'' JNull) = Inr JNull"
    by (simp add: dict_get_def)
  have h9: "bind_text (dict_get ?data ''files'' JNull) = Inr (JStr ''7'')"
    by (simp add: dict_get_def seven)
  from create_content_defaults_and_listing
    [where data = ?data and now = 60 and fromisoformat = sample_fromisoformat,
      OF load_user_sample_alice h1 h2 h3 h4 h5 h6 h7 h8 h9]
  have b: "\<exists>row js.
       create_content sample_fromisoformat 60 sample_db (Some 1) ?data
         = (Inr (Created (c_id row) ''Content scheduled successfully'', 201),
            sample_db\<lparr>scheduled_contents := scheduled_contents sample_db @ [row]\<rparr>)
     \<and> status row = JStr ''pending''
     \<and> content_type row = JStr ''video'' \<and> platforms row = JStr ''[]'' \<and> files row = JStr ''7''
     \<and> listed (fst (get_content
            (snd (create_content sample_fromisoformat 60 sample_db (Some 1) ?data))
            (Some 1))) = Some js
     \<and> (\<exists>j \<in> set js. j_id j = c_id row \<and> j_status j = JStr ''pending'')"
    by (elim exE conjE, intro exI conjI; (assumption | simp))
  have a: "create_content sample_fromisoformat 60 sample_db (Some 1) ?data
     = (Inr (Created 4 ''Content scheduled successfully'', 201),
        sample_db\<lparr>scheduled_contents := [row1, row2, row3,
          \<lparr>c_id = 4, title = JStr ''t'', content = JStr ''c'', content_type = JStr ''video'',
           platforms = JStr ''[]'', scheduled_for = 400, hashtags = JNull, mentions = JNull,
           files = JStr ''7'', status = JStr ''pending'', user_id = 1, c_created_at = 60\<rparr>]\<rparr>)"
    by (simp add: create_content_def login_required_def load_user_sample_alice_unfolded
        sample_db_def parse_datetime_def sample_fromisoformat_def insert_content_def
        Let_def column_default_def dict_get_def next_id_def seven
        row1_def row2_def row3_def u_id_alice)
  from a b show ?thesis
    by (rule conjI)
qed

text \<open>
  Claim C6. In the session of a stored user, a create request whose body lacks
  \<^verbatim>\<open>title\<close>, \<^verbatim>\<open>content\<close> or \<^verbatim>\<open>scheduled_for\<close>, or whose \<^verbatim>\<open>scheduled_for\<close> is not a
  string that parses, ends in an exception that no handler catches (the KeyError of the
  first missing key, else the ValueError of the parser on a string and its TypeError
  on any other value), not in an error response, and the store is as it was: no row
  is created.
\<close>

theorem create_content_unhandled_failure:
  assumes "load_user s i = Some u"
    and "data ''title'' = None \<or> data ''content'' = None \<or> data ''scheduled_for'' = None
       \<or> (\<exists>v. data ''scheduled_for'' = Some v \<and> (\<forall>t. v = JStr t \<longrightarrow> fromisoformat t = None))"
  shows "create_content fromisoformat now s (Some i) data
     = (Inl (if data ''title'' = None then KeyError ''title''
             else if data ''content'' = None then KeyError ''content''
             else if data ''scheduled_for'' = None then KeyError ''scheduled_for''
             else if \<exists>t. data ''scheduled_for'' = Some (JStr t) then ValueError
             else TypeError), s)"
  using assms
  by (auto simp: create_content_def login_required_def parse_datetime_def
      split: option.splits jval.splits)

theorem create_content_unhandled_failure_witness:
  "create_content sample_fromisoformat 60 sample_db (Some 1)
      [''title'' \<mapsto> JStr ''t'', ''content'' \<mapsto> JStr ''c'', ''scheduled_for'' \<mapsto> JStr ''tomorrow'']
     = (Inl ValueError, sample_db)
   \<and> create_content sample_fromisoformat 60 sample_db (Some 1)
      [''content'' \<mapsto> JStr ''c'', ''scheduled_for'' \<mapsto> JStr ''2025-01-01T00:00:00'']
     = (Inl (KeyError ''title''), sample_db)
   \<and> create_content sample_fromisoformat 60 sample_db (Some 1)
      [''title'' \<mapsto> JStr ''t'', ''content'' \<mapsto> JStr ''c'']
     = (Inl (KeyError ''scheduled_for''), sample_db)"
proof -
  let ?d1 = "[''title'' \<mapsto> JStr ''t'', ''content'' \<mapsto> JStr ''c'',
      ''scheduled_for'' \<mapsto> JStr ''tomorrow'']"
  let ?d2 = "[''content'' \<mapsto> JStr ''c'', ''scheduled_for'' \<mapsto> JStr ''2025-01-01T00:00:00'']"
  let ?d3 = "[''title'' \<mapsto> JStr ''t'', ''content'' \<mapsto> JStr ''c'']"
  have h1: "?d1 ''title'' = None \<or> ?d1 ''content'' = None \<or> ?d1 ''scheduled_for'' = None
       \<or> (\<exists>v. ?d1 ''scheduled_for'' = Some v
             \<and> (\<forall>t. v = JStr t \<longrightarrow> sample_fromisoformat t = None))"
    by (simp add: sample_fromisoformat_def)
  have h2: "?d2 ''title'' = None \<or> ?d2 ''content'' = None \<or> ?d2 ''scheduled_for'' = None
       \<or> (\<exists>v. ?d2 ''scheduled_for'' = Some v
             \<and> (\<forall>t. v = JStr t \<longrightarrow> sample_fromisoformat t = None))"
    by simp
  have h3: "?d3 ''title'' = None \<or> ?d3 ''content'' = None \<or> ?d3 ''scheduled_for'' = None
       \<or> (\<exists>v. ?d3 ''scheduled_for'' = Some v
             \<and> (\<forall>t. v = JStr t \<longrightarrow> sample_fromisoformat t = None))"
    by simp
  have 1: "create_content sample_fromisoformat 60 sample_db (Some 1) ?d1
      = (Inl ValueError, sample_db)"
    using create_content_unhandled_failure
      [where data = ?d1 and now = 60 and fromisoformat = sample_fromisoformat,
        OF load_user_sample_alice h1]
    by simp
  have 2: "create_content sample_fromisoformat 60 sample_db (Some 1) ?d2
      = (Inl (KeyError ''title''), sample_db)"
    using create_content_unhandled_failure
      [where data = ?d2 and now = 60 and fromisoformat = sample_fromisoformat,
        OF load_user_sample_alice h2]
    by simp
  have 3: "create_content sample_fromisoformat 60 sample_db (Some 1) ?d3
      = (Inl (KeyError ''scheduled_for''), sample_db)"
    using create_content_unhandled_failure
      [where data = ?d3 and now = 60 and fromisoformat = sample_fromisoformat,
        OF load_user_sample_alice h3]
    by simp
  show ?thesis
    by (intro conjI 1 2 3)
qed

section \<open>Updating content\<close>

lemma bind_changed_absent:
  "bind_changed old (dict_get data k old) = Inr v \<Longrightarrow> data k = None \<Longrightarrow> v = old"
  by (simp add: dict_get_def bind_changed_def)

text \<open>
  A commit of a content row that succeeds writes, in the rows of that primary key, the
  object with the bound value of each text attribute.
\<close>

lemma commit_content_Inr:
  assumes "commit_content s c c' = Inr s'"
  shows "\<exists>tp cp yp pp hp mp fp.
       bind_changed (title c) (title c') = Inr tp
     \<and> bind_changed (content c) (content c') = Inr cp
     \<and> bind_changed (content_type c) (content_type c') = Inr yp
     \<and> bind_changed (platforms c) (platforms c') = Inr pp
     \<and> bind_changed (hashtags c) (hashtags c') = Inr hp
     \<and> bind_changed (mentions c) (mentions c') = Inr mp
     \<and> bind_changed (files c) (files c') = Inr fp
     \<and> s' = s\<lparr>scheduled_contents :=
              map (\<lambda>x. if c_id x = c_id c'
                        then c'\<lparr>title := tp, content := cp, content_type := yp,
                                platforms := pp, hashtags := hp, mentions := mp,
                                files := fp\<rparr>
                        else x) (scheduled_contents s)\<rparr>"
proof -
  from assms obtain tp where tp: "bind_changed (title c) (title c') = Inr tp"
    and 1: "and_then (bind_changed (content c) (content c')) (\<lambda>content_p.
     and_then (bind_changed (content_type c) (content_type c')) (\<lambda>content_type_p.
     and_then (bind_changed (platforms c) (platforms c')) (\<lambda>platforms_p.
     and_then (bind_changed (hashtags c) (hashtags c')) (\<lambda>hashtags_p.
     and_then (bind_changed (mentions c) (mentions c')) (\<lambda>mentions_p.
     and_then (bind_changed (files c) (files c')) (\<lambda>files_p.
       if tp = JNull \<or> content_p = JNull then Inl IntegrityError
       else Inr (s\<lparr>scheduled_contents :=
                     map (\<lambda>x. if c_id x = c_id c'
                               then c'\<lparr>title := tp, content := content_p,
                                       content_type := content_type_p,
                                       platforms := platforms_p,
                                       hashtags := hashtags_p, mentions := mentions_p,
                                       files := files_p\<rparr>
                               else x) (scheduled_contents s)\<rparr>))))))) = Inr s'"
    unfolding commit_content_def by (blast dest: and_then_Inr)
  from 1 obtain cp where cp: "bind_changed (content c) (content c') = Inr cp"
    and 2: "and_then (bind_changed (content_type c) (content_type c')) (\<lambda>content_type_p.
     and_then (bind_changed (platforms c) (platforms c')) (\<lambda>platforms_p.
     and_then (bind_changed (hashtags c) (hashtags c')) (\<lambda>hashtags_p.
     and_then (bind_changed (mentions c) (mentions c')) (\<lambda>mentions_p.
     and_then (bind_changed (files c) (files c')) (\<lambda>files_p.
       if tp = JNull \<or> cp = JNull then Inl IntegrityError
       else Inr (s\<lparr>scheduled_contents :=
                     map (\<lambda>x. if c_id x = c_id c'
                               then c'\<lparr>title := tp, content := cp,
                                       content_type := content_type_p,
                                       platforms := platforms_p,
                                       hashtags := hashtags_p, mentions := mentions_p,
                                       files := files_p\<rparr>
                               else x) (scheduled_contents s)\<rparr>)))))) = Inr s'"
    by (blast dest: and_then_Inr)
  from 2 obtain yp where yp: "bind_changed (content_type c) (content_type c') = Inr yp"
    and 3: "and_then (bind_changed (platforms c) (platforms c')) (\<lambda>platforms_p.
     and_then (bind_changed (hashtags c) (hashtags c')) (\<lambda>hashtags_p.
     and_then (bind_changed (mentions c) (mentions c')) (\<lambda>mentions_p.
     and_then (bind_changed (files c) (files c')) (\<lambda>files_p.
       if tp = JNull \<or> cp = JNull then Inl IntegrityError
       else Inr (s\<lparr>scheduled_contents :=
                     map (\<lambda>x. if c_id x = c_id c'
                               then c'\<lparr>title := tp, content := cp,
                                       content_type := yp,
                                       platforms := platforms_p,
                                       hashtags := hashtags_p, mentions := mentions_p,
                                       files := files_p\<rparr>
                               else x) (scheduled_contents s)\<rparr>))))) = Inr s'"
    by (blast dest: and_then_Inr)
  from 3 obtain pp where pp: "bind_changed (platforms c) (platforms c') = Inr pp"
    and 4: "and_then (bind_changed (hashtags c) (hashtags c')) (\<lambda>hashtags_p.
     and_then (bind_changed (mentions c) (mentions c')) (\<lambda>mentions_p.
     and_then (bind_changed (files c) (files c')) (\<lambda>files_p.
       if tp = JNull \<or> cp = JNull then Inl IntegrityError
       else Inr (s\<lparr>scheduled_contents :=
                     map (\<lambda>x. if c_id x = c_id c'
                               then c'\<lparr>title := tp, content := cp,
                                       content_type := yp,
                                       platforms := pp,
                                       hashtags := hashtags_p, mentions := mentions_p,
                                       files := files_p\<rparr>
                               else x) (scheduled_contents s)\<rparr>)))) = Inr s'"
    by (blast dest: and_then_Inr)
  from 4 obtain hp where hp: "bind_changed (hashtags c) (hashtags c') = Inr hp"
    and 5: "and_then (bind_changed (mentions c) (mentions c')) (\<lambda>mentions_p.
     and_then (bind_changed (files c) (files c')) (\<lambda>files_p.
       if tp = JNull \<or> cp = JNull then Inl IntegrityError
       else Inr (s\<lparr>scheduled_contents :=
                     map (\<lambda>x. if c_id x = c_id c'
                               then c'\<lparr>title := tp, content := cp,
                                       content_type := yp,
                                       platforms := pp,
                                       hashtags := hp, mentions := mentions_p,
                                       files := files_p\<rparr>
                               else x) (scheduled_contents s)\<rparr>))) = Inr s'"
    by (blast dest: and_then_Inr)
  from 5 obtain mp where mp: "bind_changed (mentions c) (mentions c') = Inr mp"
    and 6: "and_then (bind_changed (files c) (files c')) (\<lambda>files_p.
       if tp = JNull \<or> cp = JNull then Inl IntegrityError
       else Inr (s\<lparr>scheduled_contents :=
                     map (\<lambda>x. if c_id x = c_id c'
                               then c'\<lparr>title := tp, content := cp,
                                       content_type := yp,
                                       platforms := pp,
                                       hashtags := hp, mentions := mp,
                                       files := files_p\<rparr>
                               else x) (scheduled_contents s)\<rparr>)) = Inr s'"
    by (blast dest: and_then_Inr)
  from 6 obtain fp where fp: "bind_changed (files c) (files c') = Inr fp"
    and 7: "(if tp = JNull \<or> cp = JNull then Inl IntegrityError
       else Inr (s\<lparr>scheduled_contents :=
                     map (\<lambda>x. if c_id x = c_id c'
                               then c'\<lparr>title := tp, content := cp,
                                       content_type := yp,
                                       platforms := pp,
                                       hashtags := hp, mentions := mp,
                                       files := fp\<rparr>
                               else x) (scheduled_contents s)\<rparr>)) = Inr s'"
    by (blast dest: and_then_Inr)
  from 7 have "s' = s\<lparr>scheduled_contents :=
              map (\<lambda>x. if c_id x = c_id c'
                        then c'\<lparr>title := tp, content := cp, content_type := yp,
                                platforms := pp, hashtags := hp, mentions := mp,
                                files := fp\<rparr>
                        else x) (scheduled_contents s)\<rparr>"
    by (simp split: if_splits)
  with tp cp yp pp hp mp fp show ?thesis
    by blast
qed

text \<open>
  What \<^verbatim>\<open>update_content\<close> can do to the store: nothing, or, in the session of the owner
  of the row found, the \<^verbatim>\<open>UPDATE\<close> of the rows of that primary key with a row that
  differs from the one found only in assigned fields whose key the body has.
\<close>

lemma update_content_cases:
  assumes "update_content fromisoformat s sess content_id data = (r, s')"
  shows "s' = s
     \<or> (\<exists>c row. c \<in> set (scheduled_contents s) \<and> c_id c = content_id
          \<and> sess = Some (user_id c)
          \<and> r = Inr (Message ''Content updated successfully'', 200)
          \<and> (data ''title'' = None \<longrightarrow> title row = title c)
          \<and> (data ''content'' = None \<longrightarrow> content row = content c)
          \<and> (data ''content_type'' = None \<longrightarrow> content_type row = content_type c)
          \<and> (data ''platforms'' = None \<longrightarrow> platforms row = platforms c)
          \<and> (data ''scheduled_for'' = None \<longrightarrow> scheduled_for row = scheduled_for c)
          \<and> (data ''hashtags'' = None \<longrightarrow> hashtags row = hashtags c)
          \<and> (data ''mentions'' = None \<longrightarrow> mentions row = mentions c)
          \<and> (data ''files'' = None \<longrightarrow> files row = files c)
          \<and> c_id row = c_id c \<and> status row = status c
          \<and> user_id row = user_id c \<and> c_created_at row = c_created_at c
          \<and> s' = s\<lparr>scheduled_contents :=
                map (\<lambda>x. if c_id x = content_id then row else x) (scheduled_contents s)\<rparr>)"
proof (cases sess)
  case None
  with assms show ?thesis
    by (simp add: update_content_def login_required_def)
next
  case (Some i)
  show ?thesis
  proof (cases "load_user s i")
    case None
    with Some assms show ?thesis
      by (simp add: update_content_def login_required_def)
  next
    case (Some u)
    then have ui: "u_id u = i"
      by (rule load_user_u_id)
    show ?thesis
    proof (cases "find (\<lambda>c. c_id c = content_id \<and> user_id c = u_id u) (scheduled_contents s)")
      case None
      with \<open>sess = Some i\<close> Some assms show ?thesis
        by (simp add: update_content_def login_required_def)
    next
      case found: (Some c)
      then have c: "(c_id c = content_id \<and> user_id c = u_id u) \<and> c \<in> set (scheduled_contents s)"
        by (rule find_Some_holds)
      let ?upd = "\<lambda>w. c\<lparr>title := dict_get data ''title'' (title c),
                             content := dict_get data ''content'' (content c),
                             content_type := dict_get data ''content_type'' (content_type c),
                             platforms := dict_get data ''platforms'' (platforms c),
                             scheduled_for := w,
                             hashtags := dict_get data ''hashtags'' (hashtags c),
                             mentions := dict_get data ''mentions'' (mentions c),
                             files := dict_get data ''files'' (files c)\<rparr>"
      let ?commit = "\<lambda>w. case commit_content s c (?upd w) of
                     Inl e \<Rightarrow> (Inl e, s)
                   | Inr s'' \<Rightarrow> (Inr (Message ''Content updated successfully'', 200), s'')"
      have "s' = s
          \<or> (\<exists>w. (data ''scheduled_for'' = None \<longrightarrow> w = scheduled_for c) \<and> (r, s') = ?commit w)"
      proof (cases "data ''scheduled_for''")
        case None
        with \<open>sess = Some i\<close> Some found assms
        have "(r, s') = ?commit (scheduled_for c)"
          by (simp add: update_content_def login_required_def Let_def)
        then show ?thesis
          by blast
      next
        case sf: (Some v)
        show ?thesis
        proof (cases "parse_datetime fromisoformat v")
          case (Inl e)
          with sf \<open>sess = Some i\<close> Some found assms have "s' = s"
            by (simp add: update_content_def login_required_def Let_def)
          then show ?thesis
            by (rule disjI1)
        next
          case (Inr w)
          with sf \<open>sess = Some i\<close> Some found assms have "(r, s') = ?commit w"
            by (simp add: update_content_def login_required_def Let_def)
          with sf show ?thesis
            by auto
        qed
      qed
      then show ?thesis
      proof (elim disjE exE conjE)
        assume "s' = s"
        then show ?thesis
          by (rule disjI1)
      next
        fix w
        assume wn: "data ''scheduled_for'' = None \<longrightarrow> w = scheduled_for c"
          and upd: "(r, s') = ?commit w"
        show ?thesis
        proof (cases "commit_content s c (?upd w)")
          case (Inl e)
          with upd have "s' = s"
            by simp
          then show ?thesis
            by (rule disjI1)
        next
          case (Inr s'')
          from commit_content_Inr [OF Inr] obtain tp cp yp pp hp mp fp
            where b: "bind_changed (title c) (dict_get data ''title'' (title c)) = Inr tp"
              "bind_changed (content c) (dict_get data ''content'' (content c)) = Inr cp"
              "bind_changed (content_type c) (dict_get data ''content_type'' (content_type c))
                 = Inr yp"
              "bind_changed (platforms c) (dict_get data ''platforms'' (platforms c)) = Inr pp"
              "bind_changed (hashtags c) (dict_get data ''hashtags'' (hashtags c)) = Inr hp"
              "bind_changed (mentions c) (dict_get data ''mentions'' (mentions c)) = Inr mp"
              "bind_changed (files c) (dict_get data ''files'' (files c)) = Inr fp"
            and s'': "s'' = s\<lparr>scheduled_contents :=
                map (\<lambda>x. if c_id x = c_id c
                          then (?upd w)\<lparr>title := tp, content := cp, content_type := yp,
                                  platforms := pp, hashtags := hp, mentions := mp,
                                  files := fp\<rparr>
                          else x) (scheduled_contents s)\<rparr>"
            by auto
          let ?row = "(?upd w)\<lparr>title := tp, content := cp, content_type := yp,
                                  platforms := pp, hashtags := hp, mentions := mp,
                                  files := fp\<rparr>"
          from b wn have fr: "(data ''title'' = None \<longrightarrow> title ?row = title c)
          \<and> (data ''content'' = None \<longrightarrow> content ?row = content c)
          \<and> (data ''content_type'' = None \<longrightarrow> content_type ?row = content_type c)
          \<and> (data ''platforms'' = None \<longrightarrow> platforms ?row = platforms c)
          \<and> (data ''scheduled_for'' = None \<longrightarrow> scheduled_for ?row = scheduled_for c)
          \<and> (data ''hashtags'' = None \<longrightarrow> hashtags ?row = hashtags c)
          \<and> (data ''mentions'' = None \<longrightarrow> mentions ?row = mentions c)
          \<and> (data ''files'' = None \<longrightarrow> files ?row = files c)
          \<and> c_id ?row = c_id c \<and> status ?row = status c
          \<and> user_id ?row = user_id c \<and> c_created_at ?row = c_created_at c"
            by (simp add: bind_changed_absent)
          from upd Inr s'' c have rs: "r = Inr (Message ''Content updated successfully'', 200)"
            "s' = s\<lparr>scheduled_contents :=
                map (\<lambda>x. if c_id x = content_id then ?row else x) (scheduled_contents s)\<rparr>"
            by simp_all
          from c ui \<open>sess = Some i\<close> have own: "c \<in> set (scheduled_contents s)"
            "c_id c = content_id" "sess = Some (user_id c)"
            by simp_all
          from own rs fr show ?thesis
            by (intro disjI2 exI[of _ c] exI[of _ ?row]) blast
        qed
      qed
    qed
  qed
qed

lemma update_content_row:
  assumes "distinct (map c_id (scheduled_contents s))"
    and "update_content fromisoformat s sess content_id data = (r, s')"
    and "k < length (scheduled_contents s)"
  shows "length (scheduled_contents s') = length (scheduled_contents s) \<and> users s' = users s
     \<and> (scheduled_contents s' ! k = scheduled_contents s ! k
        \<or> (c_id (scheduled_contents s ! k) = content_id
          \<and> sess = Some (user_id (scheduled_contents s ! k))
          \<and> r = Inr (Message ''Content updated successfully'', 200)
          \<and> (data ''title'' = None \<longrightarrow> title (scheduled_contents s' ! k) = title (scheduled_contents s ! k))
          \<and> (data ''content'' = None \<longrightarrow> content (scheduled_contents s' ! k) = content (scheduled_contents s ! k))
          \<and> (data ''content_type'' = None \<longrightarrow> content_type (scheduled_contents s' ! k) = content_type (scheduled_contents s ! k))
          \<and> (data ''platforms'' = None \<longrightarrow> platforms (scheduled_contents s' ! k) = platforms (scheduled_contents s ! k))
          \<and> (data ''scheduled_for'' = None \<longrightarrow> scheduled_for (scheduled_contents s' ! k) = scheduled_for (scheduled_contents s ! k))
          \<and> (data ''hashtags'' = None \<longrightarrow> hashtags (scheduled_contents s' ! k) = hashtags (scheduled_contents s ! k))
          \<and> (data ''mentions'' = None \<longrightarrow> mentions (scheduled_contents s' ! k) = mentions (scheduled_contents s ! k))
          \<and> (data ''files'' = None \<longrightarrow> files (scheduled_contents s' ! k) = files (scheduled_contents s ! k))
          \<and> c_id (scheduled_contents s' ! k) = c_id (scheduled_contents s ! k) \<and> status (scheduled_contents s' ! k) = status (scheduled_contents s ! k)
          \<and> user_id (scheduled_contents s' ! k) = user_id (scheduled_contents s ! k) \<and> c_created_at (scheduled_contents s' ! k) = c_created_at (scheduled_contents s ! k)))"
proof -
  let ?xs = "scheduled_contents s"
  from update_content_cases [OF assms(2)] show ?thesis
  proof (elim disjE exE conjE)
    assume "s' = s"
    then show ?thesis
      by simp
  next
    fix c row :: scheduled_content
    assume c: "c \<in> set ?xs" "c_id c = content_id" "sess = Some (user_id c)"
      and r: "r = Inr (Message ''Content updated successfully'', 200)"
      and fr: "data ''title'' = None \<longrightarrow> title row = title c"
        "data ''content'' = None \<longrightarrow> content row = content c"
        "data ''content_type'' = None \<longrightarrow> content_type row = content_type c"
        "data ''platforms'' = None \<longrightarrow> platforms row = platforms c"
        "data ''scheduled_for'' = None \<longrightarrow> scheduled_for row = scheduled_for c"
        "data ''hashtags'' = None \<longrightarrow> hashtags row = hashtags c"
        "data ''mentions'' = None \<longrightarrow> mentions row = mentions c"
        "data ''files'' = None \<longrightarrow> files row = files c"
        "c_id row = c_id c" "status row = status c"
        "user_id row = user_id c" "c_created_at row = c_created_at c"
      and s': "s' = s\<lparr>scheduled_contents := map (\<lambda>x. if c_id x = content_id then row else x) ?xs\<rparr>"
    from s' have len: "length (scheduled_contents s') = length ?xs" and us: "users s' = users s"
      by simp_all
    from s' assms(3)
    have at: "scheduled_contents s' ! k = (if c_id (?xs ! k) = content_id then row else ?xs ! k)"
      by simp
    show ?thesis
    proof (cases "c_id (?xs ! k) = content_id")
      case False
      with at len us show ?thesis
        by simp
    next
      case True
      from assms(1) have "inj_on c_id (set ?xs)"
        by (simp add: distinct_map)
      moreover from assms(3) have "?xs ! k \<in> set ?xs"
        by simp
      moreover from True c(2) have "c_id (?xs ! k) = c_id c"
        by simp
      ultimately have "?xs ! k = c"
        using c(1) by (meson inj_onD)
      with True at c r fr len us show ?thesis
        by simp
    qed
  qed
qed

lemma update_content_not_found:
  assumes "load_user s i = Some u"
    and "\<forall>c \<in> set (scheduled_contents s). \<not> (c_id c = content_id \<and> user_id c = i)"
  shows "update_content fromisoformat s (Some i) content_id data
     = (Inr (Error ''Content not found'', 404), s)"
proof -
  from assms(1) have "u_id u = i"
    by (rule load_user_u_id)
  with assms(2)
  have "find (\<lambda>c. c_id c = content_id \<and> user_id c = u_id u) (scheduled_contents s) = None"
    by (simp add: find_None_iff)
  with assms(1) show ?thesis
    by (simp add: update_content_def login_required_def)
qed

text \<open>
  Claim C4. In a store whose content rows have distinct primary keys, whatever the
  session, the row id and the body of an update request, and whatever its outcome:
  the table keeps its length, and in every row each of the eight fields the handler
  assigns keeps its value when the body has no key of its name; a row of another
  primary key, or of another owner than the session's user, is not modified at all.
  When no row of the given id is owned by the authenticated user the answer is 404
  \<^verbatim>\<open>Content not found\<close> and the store is as it was.
\<close>

theorem update_content_partial_frame:
  assumes "distinct (map c_id (scheduled_contents s))"
    and "update_content fromisoformat s sess content_id data = (r, s')"
    and "k < length (scheduled_contents s)"
  shows "length (scheduled_contents s') = length (scheduled_contents s)
     \<and> (data ''title'' = None \<longrightarrow>
          title (scheduled_contents s' ! k) = title (scheduled_contents s ! k))
     \<and> (data ''content'' = None \<longrightarrow>
          content (scheduled_contents s' ! k) = content (scheduled_contents s ! k))
     \<and> (data ''content_type'' = None \<longrightarrow>
          content_type (scheduled_contents s' ! k) = content_type (scheduled_contents s ! k))
     \<and> (data ''platforms'' = None \<longrightarrow>
          platforms (scheduled_contents s' ! k) = platforms (scheduled_contents s ! k))
     \<and> (data ''scheduled_for'' = None \<longrightarrow>
          scheduled_for (scheduled_contents s' ! k) = scheduled_for (scheduled_contents s ! k))
     \<and> (data ''hashtags'' = None \<longrightarrow>
          hashtags (scheduled_contents s' ! k) = hashtags (scheduled_contents s ! k))
     \<and> (data ''mentions'' = None \<longrightarrow>
          mentions (scheduled_contents s' ! k) = mentions (scheduled_contents s ! k))
     \<and> (data ''files'' = None \<longrightarrow>
          files (scheduled_contents s' ! k) = files (scheduled_contents s ! k))
     \<and> (c_id (scheduled_contents s ! k) \<noteq> content_id
          \<or> sess \<noteq> Some (user_id (scheduled_contents s ! k)) \<longrightarrow>
          scheduled_contents s' ! k = scheduled_contents s ! k)
     \<and> (sess = Some i \<and> load_user s i = Some u
          \<and> (\<forall>c \<in> set (scheduled_contents s). \<not> (c_id c = content_id \<and> user_id c = i)) \<longrightarrow>
          r = Inr (Error ''Content not found'', 404) \<and> s' = s)"
proof -
  note row = update_content_row [OF assms]
  have nf: "sess = Some i \<and> load_user s i = Some u
          \<and> (\<forall>c \<in> set (scheduled_contents s). \<not> (c_id c = content_id \<and> user_id c = i)) \<longrightarrow>
          r = Inr (Error ''Content not found'', 404) \<and> s' = s"
  proof (intro impI, elim conjE)
    assume "sess = Some i" and "load_user s i = Some u"
      and "\<forall>c \<in> set (scheduled_contents s). \<not> (c_id c = content_id \<and> user_id c = i)"
    then have "update_content fromisoformat s sess content_id data
        = (Inr (Error ''Content not found'', 404), s)"
      by (simp add: update_content_not_found)
    with assms(2) show "r = Inr (Error ''Content not found'', 404) \<and> s' = s"
      by simp
  qed
  from row have "length (scheduled_contents s') = length (scheduled_contents s)"
    by (rule conjunct1)
  moreover from row have "data ''title'' = None \<longrightarrow>
          title (scheduled_contents s' ! k) = title (scheduled_contents s ! k)"
    by auto
  moreover from row have "data ''content'' = None \<longrightarrow>
          content (scheduled_contents s' ! k) = content (scheduled_contents s ! k)"
    by auto
  moreover from row have "data ''content_type'' = None \<longrightarrow>
          content_type (scheduled_contents s' ! k) = content_type (scheduled_contents s ! k)"
    by auto
  moreover from row have "data ''platforms'' = None \<longrightarrow>
          platforms (scheduled_contents s' ! k) = platforms (scheduled_contents s ! k)"
    by auto
  moreover from row have "data ''scheduled_for'' = None \<longrightarrow>
          scheduled_for (scheduled_contents s' ! k) = scheduled_for (scheduled_contents s ! k)"
    by auto
  moreover from row have "data ''hashtags'' = None \<longrightarrow>
          hashtags (scheduled_contents s' ! k) = hashtags (scheduled_contents s ! k)"
    by auto
  moreover from row have "data ''mentions'' = None \<longrightarrow>
          mentions (scheduled_contents s' ! k) = mentions (scheduled_contents s ! k)"
    by auto
  moreover from row have "data ''files'' = None \<longrightarrow>
          files (scheduled_contents s' ! k) = files (scheduled_contents s ! k)"
    by auto
  moreover from row have "c_id (scheduled_contents s ! k) \<noteq> content_id
          \<or> sess \<noteq> Some (user_id (scheduled_contents s ! k)) \<longrightarrow>
          scheduled_contents s' ! k = scheduled_contents s ! k"
    by auto
  ultimately show ?thesis
    using nf by (intro conjI)
qed

text \<open>
  Claim C9. In a store whose content rows have distinct primary keys, whatever the
  session, the row id and the body of an update request (so also a body with keys
  \<^verbatim>\<open>status\<close>, \<^verbatim>\<open>user_id\<close> or \<^verbatim>\<open>created_at\<close>), every row keeps its status, its owner,
  its creation time and its primary key, and the user table is not modified.
\<close>

theorem update_content_protected_fields:
  assumes "distinct (map c_id (scheduled_contents s))"
    and "update_content fromisoformat s sess content_id data = (r, s')"
    and "k < length (scheduled_contents s)"
  shows "length (scheduled_contents s') = length (scheduled_contents s)
     \<and> status (scheduled_contents s' ! k) = status (scheduled_contents s ! k)
     \<and> user_id (scheduled_contents s' ! k) = user_id (scheduled_contents s ! k)
     \<and> c_created_at (scheduled_contents s' ! k) = c_created_at (scheduled_contents s ! k)
     \<and> c_id (scheduled_contents s' ! k) = c_id (scheduled_contents s ! k)
     \<and> users s' = users s"
proof -
  note row = update_content_row [OF assms]
  from row have "length (scheduled_contents s') = length (scheduled_contents s)"
    by (rule conjunct1)
  moreover from row have "status (scheduled_contents s' ! k) = status (scheduled_contents s ! k)"
    by auto
  moreover from row have "user_id (scheduled_contents s' ! k) = user_id (scheduled_contents s ! k)"
    by auto
  moreover from row
  have "c_created_at (scheduled_contents s' ! k) = c_created_at (scheduled_contents s ! k)"
    by auto
  moreover from row have "c_id (scheduled_contents s' ! k) = c_id (scheduled_contents s ! k)"
    by auto
  moreover from row have "users s' = users s"
    by simp
  ultimately show ?thesis
    by (intro conjI)
qed

lemma scheduled_contents_sample: "scheduled_contents sample_db = [row1, row2, row3]"
  by (simp add: sample_db_def)

lemma distinct_sample_ids: "distinct (map c_id (scheduled_contents sample_db))"
  by (simp add: sample_db_def row1_def row2_def row3_def)

lemma update_sample_title:
  "update_content sample_fromisoformat sample_db (Some 1) 1 [''title'' \<mapsto> JStr ''new'']
     = (Inr (Message ''Content updated successfully'', 200),
        sample_db\<lparr>scheduled_contents := [row1\<lparr>title := JStr ''new''\<rparr>, row2, row3]\<rparr>)"
  by (simp add: update_content_def login_required_def load_user_sample_alice u_id_alice
      scheduled_contents_sample commit_content_def bind_changed_def dict_get_def Let_def
      row1_def row2_def row3_def)

lemma update_sample_protected:
  "update_content sample_fromisoformat sample_db (Some 1) 3
      [''status'' \<mapsto> JStr ''published'', ''user_id'' \<mapsto> JStr ''2'',
       ''created_at'' \<mapsto> JStr ''2024-01-01T00:00:00'',
       ''scheduled_for'' \<mapsto> JStr ''2025-06-01T12:00:00'']
     = (Inr (Message ''Content updated successfully'', 200),
        sample_db\<lparr>scheduled_contents := [row1, row2, row3\<lparr>scheduled_for := 500\<rparr>]\<rparr>)"
  by (simp add: update_content_def login_required_def load_user_sample_alice u_id_alice
      scheduled_contents_sample commit_content_def bind_changed_def dict_get_def Let_def
      parse_datetime_def sample_fromisoformat_def
      row1_def row2_def row3_def)

theorem update_content_partial_frame_witness:
  "update_content sample_fromisoformat sample_db (Some 1) 1 [''title'' \<mapsto> JStr ''new'']
     = (Inr (Message ''Content updated successfully'', 200),
        sample_db\<lparr>scheduled_contents := [row1\<lparr>title := JStr ''new''\<rparr>, row2, row3]\<rparr>)
   \<and> content (scheduled_contents (snd (update_content sample_fromisoformat sample_db (Some 1) 1
          [''title'' \<mapsto> JStr ''new''])) ! 0) = content (scheduled_contents sample_db ! 0)
   \<and> scheduled_for (scheduled_contents (snd (update_content sample_fromisoformat sample_db
          (Some 1) 1 [''title'' \<mapsto> JStr ''new''])) ! 0)
       = scheduled_for (scheduled_contents sample_db ! 0)
   \<and> files (scheduled_contents (snd (update_content sample_fromisoformat sample_db (Some 1) 1
          [''title'' \<mapsto> JStr ''new''])) ! 0) = files (scheduled_contents sample_db ! 0)
   \<and> scheduled_contents (snd (update_content sample_fromisoformat sample_db (Some 1) 1
          [''title'' \<mapsto> JStr ''new''])) ! 1 = scheduled_contents sample_db ! 1
   \<and> update_content sample_fromisoformat sample_db (Some 1) 2 [''title'' \<mapsto> JStr ''new'']
     = (Inr (Error ''Content not found'', 404), sample_db)"
proof -
  let ?d = "[''title'' \<mapsto> JStr ''new'']"
  let ?u1 = "update_content sample_fromisoformat sample_db (Some 1) 1 ?d"
  let ?u2 = "update_content sample_fromisoformat sample_db (Some 1) 2 ?d"
  have e1: "?u1 = (fst ?u1, snd ?u1)"
    by simp
  have e2: "?u2 = (fst ?u2, snd ?u2)"
    by simp
  have k0: "0 < length (scheduled_contents sample_db)"
    by (simp add: scheduled_contents_sample)
  have k1: "1 < length (scheduled_contents sample_db)"
    by (simp add: scheduled_contents_sample)
  note t0 = update_content_partial_frame
    [where data = ?d and fromisoformat = sample_fromisoformat and i = 1 and u = alice,
      OF distinct_sample_ids e1 k0]
  note t1 = update_content_partial_frame
    [where data = ?d and fromisoformat = sample_fromisoformat and i = 1 and u = alice,
      OF distinct_sample_ids e1 k1]
  note t2 = update_content_partial_frame
    [where data = ?d and fromisoformat = sample_fromisoformat and i = 1 and u = alice,
      OF distinct_sample_ids e2 k0]
  have a: "content (scheduled_contents (snd ?u1) ! 0) = content (scheduled_contents sample_db ! 0)"
    using t0 by simp
  have b: "scheduled_for (scheduled_contents (snd ?u1) ! 0)
      = scheduled_for (scheduled_contents sample_db ! 0)"
    using t0 by simp
  have c: "files (scheduled_contents (snd ?u1) ! 0) = files (scheduled_contents sample_db ! 0)"
    using t0 by simp
  have "c_id (scheduled_contents sample_db ! 1) \<noteq> 1"
    by (simp add: scheduled_contents_sample row2_def)
  with t1 have d: "scheduled_contents (snd ?u1) ! 1 = scheduled_contents sample_db ! 1"
    by blast
  have "\<forall>c \<in> set (scheduled_contents sample_db). \<not> (c_id c = 2 \<and> user_id c = 1)"
    by (simp add: scheduled_contents_sample row1_def row2_def row3_def)
  with t2 load_user_sample_alice
  have "fst ?u2 = Inr (Error ''Content not found'', 404) \<and> snd ?u2 = sample_db"
    by blast
  then have f: "?u2 = (Inr (Error ''Content not found'', 404), sample_db)"
    by (simp add: prod_eq_iff)
  show ?thesis
    by (intro conjI update_sample_title a b c d f)
qed

theorem update_content_protected_fields_witness:
  "update_content sample_fromisoformat sample_db (Some 1) 3
      [''status'' \<mapsto> JStr ''published'', ''user_id'' \<mapsto> JStr ''2'',
       ''created_at'' \<mapsto> JStr ''2024-01-01T00:00:00'',
       ''scheduled_for'' \<mapsto> JStr ''2025-06-01T12:00:00'']
     = (Inr (Message ''Content updated successfully'', 200),
        sample_db\<lparr>scheduled_contents := [row1, row2, row3\<lparr>scheduled_for := 500\<rparr>]\<rparr>)
   \<and> status (scheduled_contents (snd (update_content sample_fromisoformat sample_db (Some 1) 3
        [''status'' \<mapsto> JStr ''published'', ''user_id'' \<mapsto> JStr ''2'',
         ''created_at'' \<mapsto> JStr ''2024-01-01T00:00:00'',
         ''scheduled_for'' \<mapsto> JStr ''2025-06-01T12:00:00''])) ! 2)
       = status (scheduled_contents sample_db ! 2)
   \<and> user_id (scheduled_contents (snd (update_content sample_fromisoformat sample_db (Some 1) 3
        [''status'' \<mapsto> JStr ''published'', ''user_id'' \<mapsto> JStr ''2'',
         ''created_at'' \<mapsto> JStr ''2024-01-01T00:00:00'',
         ''scheduled_for'' \<mapsto> JStr ''2025-06-01T12:00:00''])) ! 2)
       = user_id (scheduled_contents sample_db ! 2)
   \<and> c_created_at (scheduled_contents (snd (update_content sample_fromisoformat sample_db
        (Some 1) 3
        [''status'' \<mapsto> JStr ''published'', ''user_id'' \<mapsto> JStr ''2'',
         ''created_at'' \<mapsto> JStr ''2024-01-01T00:00:00'',
         ''scheduled_for'' \<mapsto> JStr ''2025-06-01T12:00:00''])) ! 2)
       = c_created_at (scheduled_contents sample_db ! 2)"
proof -
  let ?d = "[''status'' \<mapsto> JStr ''published'', ''user_id'' \<mapsto> JStr ''2'',
       ''created_at'' \<mapsto> JStr ''2024-01-01T00:00:00'',
       ''scheduled_for'' \<mapsto> JStr ''2025-06-01T12:00:00'']"
  let ?u = "update_content sample_fromisoformat sample_db (Some 1) 3 ?d"
  have e: "?u = (fst ?u, snd ?u)"
    by simp
  have k: "2 < length (scheduled_contents sample_db)"
    by (simp add: scheduled_contents_sample)
  note t = update_content_protected_fields
    [where data = ?d and fromisoformat = sample_fromisoformat, OF distinct_sample_ids e k]
  from t have a: "status (scheduled_contents (snd ?u) ! 2)
      = status (scheduled_contents sample_db ! 2)"
    by blast
  from t have b: "user_id (scheduled_contents (snd ?u) ! 2)
      = user_id (scheduled_contents sample_db ! 2)"
    by blast
  from t have c: "c_created_at (scheduled_contents (snd ?u) ! 2)
      = c_created_at (scheduled_contents sample_db ! 2)"
    by blast
  show ?thesis
    by (intro conjI update_sample_protected a b c)
qed

section \<open>The key constraints are kept\<close>

text \<open>
  The theorems on login and on updates assume unique usernames and distinct primary
  keys of the content rows. The handlers that write to the tables keep both.
\<close>

lemma insert_user_keeps_usernames_distinct:
  assumes "insert_user s u = Inr s'" and "distinct (map username (users s))"
  shows "distinct (map username (users s'))"
  using assms
  by (auto simp: insert_user_def dest!: and_then_Inr split: if_splits)

lemma register_store:
  "snd (register now s data) = s
   \<or> (\<exists>u. insert_user s u = Inr (snd (register now s data)))"
  by (auto simp: register_def split: option.splits sum.splits)

lemma register_keeps_usernames_distinct:
  assumes "distinct (map username (users s))"
  shows "distinct (map username (users (snd (register now s data))))"
  using register_store [of now s data] assms
  by (auto dest: insert_user_keeps_usernames_distinct)

lemma insert_content_keeps_ids_distinct:
  assumes "insert_content s c = Inr (n, s')" and "distinct (map c_id (scheduled_contents s))"
  shows "distinct (map c_id (scheduled_contents s'))"
proof -
  have "next_id (map c_id (scheduled_contents s)) \<notin> c_id ` set (scheduled_contents s)"
    using next_id_fresh [of "map c_id (scheduled_contents s)"] by simp
  with assms show ?thesis
    by (auto simp: insert_content_def Let_def dest!: and_then_Inr split: if_splits)
qed

lemma create_content_store:
  "snd (create_content fromisoformat now s sess data) = s
   \<or> (\<exists>c n. insert_content s c
         = Inr (n, snd (create_content fromisoformat now s sess data)))"
  by (auto simp: create_content_def login_required_def split: option.splits sum.splits)

lemma create_content_keeps_ids_distinct:
  assumes "distinct (map c_id (scheduled_contents s))"
  shows "distinct (map c_id (scheduled_contents
           (snd (create_content fromisoformat now s sess data))))"
  using create_content_store [of fromisoformat now s sess data] assms
  by (auto dest: insert_content_keeps_ids_distinct)

lemma update_content_keeps_ids:
  "map c_id (scheduled_contents (snd (update_content fromisoformat s sess content_id data)))
     = map c_id (scheduled_contents s)"
proof -
  obtain r s' where e: "update_content fromisoformat s sess content_id data = (r, s')"
    by (cases "update_content fromisoformat s sess content_id data")
  from update_content_cases [OF e] have "map c_id (scheduled_contents s') = map c_id (scheduled_contents s)"
    by (auto simp: comp_def)
  with e show ?thesis
    by simp
qed

end
